theory Spec2Isabelle
  imports Main "HOL-Library.Sublist" "HOL-Library.Char_ord" "HOL-Library.Word"
begin

section \<open>Strings\<close>

text \<open>
  A Go \<open>string\<close> is a sequence of bytes; it is modelled as an Isabelle \<open>string\<close>
  (a list of 8-bit characters).  The three functions of package \<open>strings\<close> that the
  code calls are written out here.
\<close>

definition strings_HasPrefix :: "string \<Rightarrow> string \<Rightarrow> bool" where
  "strings_HasPrefix s p = prefix p s"

definition strings_Contains :: "string \<Rightarrow> string \<Rightarrow> bool" where
  "strings_Contains s sub = sublist sub s"

text \<open>
  \<open>strings.TrimSpace\<close> removes all leading and trailing white space, as defined by
  Unicode.  On the bytes of a string this removes, from either end, the UTF-8 encodings of
  the code points with property White_Space: U+0009..U+000D, U+0020, U+0085, U+00A0,
  U+1680, U+2000..U+200A, U+2028, U+2029, U+202F, U+205F and U+3000.
\<close>

definition WhiteSpace :: "string list" where
  "WhiteSpace =
    [ [CHR 0x09], [CHR 0x0A], [CHR 0x0B], [CHR 0x0C], [CHR 0x0D], [CHR 0x20],
     [CHR 0xC2, CHR 0x85], [CHR 0xC2, CHR 0xA0],
     [CHR 0xE1, CHR 0x9A, CHR 0x80],
     [CHR 0xE2, CHR 0x80, CHR 0x80], [CHR 0xE2, CHR 0x80, CHR 0x81],
     [CHR 0xE2, CHR 0x80, CHR 0x82], [CHR 0xE2, CHR 0x80, CHR 0x83],
     [CHR 0xE2, CHR 0x80, CHR 0x84], [CHR 0xE2, CHR 0x80, CHR 0x85],
     [CHR 0xE2, CHR 0x80, CHR 0x86], [CHR 0xE2, CHR 0x80, CHR 0x87],
     [CHR 0xE2, CHR 0x80, CHR 0x88], [CHR 0xE2, CHR 0x80, CHR 0x89],
     [CHR 0xE2, CHR 0x80, CHR 0x8A],
     [CHR 0xE2, CHR 0x80, CHR 0xA8], [CHR 0xE2, CHR 0x80, CHR 0xA9],
     [CHR 0xE2, CHR 0x80, CHR 0xAF],
     [CHR 0xE2, CHR 0x81, CHR 0x9F],
     [CHR 0xE3, CHR 0x80, CHR 0x80]]"

text \<open>
  \<open>leadingRune rs s\<close> is the encoding among \<open>rs\<close> that \<open>s\<close> starts with, if any;
  \<open>trimLeftRunes\<close> is the loop of \<open>strings.TrimLeftFunc\<close>: it drops such encodings from
  the front until the string starts with something else.
\<close>

definition leadingRune :: "string list \<Rightarrow> string \<Rightarrow> string option" where
  "leadingRune rs s = find (\<lambda>r. r \<noteq> [] \<and> prefix r s) rs"

function trimLeftRunes :: "string list \<Rightarrow> string \<Rightarrow> string" where
  "trimLeftRunes rs s =
     (case leadingRune rs s of
        None \<Rightarrow> s
      | Some r \<Rightarrow> trimLeftRunes rs (drop (length r) s))"
  by pat_completeness auto
termination
proof (relation "measure (\<lambda>(rs, s). length s)")
  show "wf (measure (\<lambda>(rs, s). length s))" by simp
next
  fix rs :: "string list" and s r :: string
  assume "leadingRune rs s = Some r"
  then have "r \<noteq> []" and "prefix r s"
    by (auto simp: leadingRune_def find_Some_iff)
  then have "length (drop (length r) s) < length s"
    by (cases r) (auto simp: prefix_def)
  then show "((rs, drop (length r) s), (rs, s)) \<in> measure (\<lambda>(rs, s). length s)"
    by simp
qed

declare trimLeftRunes.simps [simp del]

definition trimRightRunes :: "string list \<Rightarrow> string \<Rightarrow> string" where
  "trimRightRunes rs s = rev (trimLeftRunes (map rev rs) (rev s))"

definition strings_TrimSpace :: "string \<Rightarrow> string" where
  "strings_TrimSpace s = trimRightRunes WhiteSpace (trimLeftRunes WhiteSpace s)"

text \<open>What a trimmed string looks like: no white space at either end.\<close>

definition trimmed :: "string \<Rightarrow> bool" where
  "trimmed s \<longleftrightarrow>
     leadingRune WhiteSpace s = None \<and> leadingRune (map rev WhiteSpace) (rev s) = None"

section \<open>Models (package models)\<close>

text \<open>
  A \<open>time.Time\<close> is an instant, counted in nanoseconds; \<open>Before\<close>, \<open>After\<close> and
  \<open>Equal\<close> are \<open><\<close>, \<open>>\<close> and \<open>=\<close> on instants.  A \<open>*time.Time\<close> and the
  \<open>OptionalTime\<close> wrapper around it are a \<open>time option\<close> (\<open>None\<close> is \<open>nil\<close>).
\<close>

type_synonym time = int

text \<open>
  \<open>OptionalTime.UnmarshalJSON\<close> reads the JSON value of \<open>expires_at\<close>: the quotes
  are trimmed off, and the empty string and \<open>null\<close> give \<open>nil\<close>.  \<open>time.Parse\<close> with
  layout RFC 3339 is the parameter \<open>time_Parse\<close>.  \<open>strings.Trim\<close> is written for a
  cutset of ASCII characters.
\<close>

definition strings_Trim :: "string \<Rightarrow> string \<Rightarrow> string" where
  "strings_Trim s cutset =
     rev (dropWhile (\<lambda>c. c \<in> set cutset) (rev (dropWhile (\<lambda>c. c \<in> set cutset) s)))"

definition OptionalTime_UnmarshalJSON ::
  "(string \<Rightarrow> string + time) \<Rightarrow> string \<Rightarrow> string + time option" where
  "OptionalTime_UnmarshalJSON time_Parse data =
     (let str = strings_Trim data [CHR 0x22]
      in if str = [] \<or> str = ''null'' then Inr None
         else (case time_Parse str of
                 Inl err \<Rightarrow> Inl err
               | Inr t \<Rightarrow> Inr (Some t)))"

definition Hour :: int where
  "Hour = 3600000000000"

record URL =
  ID :: int
  ShortCode :: string
  OriginalURL :: string
  UserID :: int
  CreatedAt :: time
  UpdatedAt :: time
  ClickCount :: int
  IsActive :: bool
  ExpiresAt :: "time option"
  UserAgent :: string
  IPAddress :: string

record CreateURLRequest =
  req_URL :: string
  CustomCode :: string
  req_ExpiresAt :: "time option"

record UpdateURLRequest =
  upd_OriginalURL :: string
  upd_IsActive :: "bool option"
  upd_ExpiresAt :: "time option"

record CreateURLResponse =
  resp_ID :: int
  resp_ShortCode :: string
  resp_OriginalURL :: string
  resp_ShortURL :: string
  resp_IsActive :: bool
  resp_CreatedAt :: time
  resp_ExpiresAt :: "time option"
  resp_QRCode :: string

record User =
  user_ID :: int
  LinkCount :: int
  LinkLimit :: int

text \<open>
  \<open>url.Parse\<close> of package \<open>net/url\<close> is not part of the repository.  The functions
  that call it take it as the parameter \<open>url_Parse\<close>: it returns the text of an error, or
  the parsed URL, of which the code reads the scheme and the host.
\<close>

record ParsedURL =
  Scheme :: string
  Host :: string

type_synonym url_parser = "string \<Rightarrow> string + ParsedURL"

definition IsExpired :: "time \<Rightarrow> URL \<Rightarrow> bool" where
  "IsExpired now u = (case ExpiresAt u of None \<Rightarrow> False | Some t \<Rightarrow> now > t)"

definition NormalizeURL :: "URL \<Rightarrow> URL" where
  "NormalizeURL u =
     (let u1 = u\<lparr>OriginalURL := strings_TrimSpace (OriginalURL u)\<rparr>
      in if \<not> strings_HasPrefix (OriginalURL u1) ''http://''
            \<and> \<not> strings_HasPrefix (OriginalURL u1) ''https://''
         then u1\<lparr>OriginalURL := ''https://'' @ OriginalURL u1\<rparr>
         else u1)"

definition CanCreateLink :: "User \<Rightarrow> bool" where
  "CanCreateLink u = (LinkCount u < LinkLimit u)"

text \<open>
  The custom code is checked rune by rune; every rune that passes is an ASCII letter, an
  ASCII digit or a hyphen, so the check is the same on the bytes.
\<close>

definition custom_code_char :: "char \<Rightarrow> bool" where
  "custom_code_char c =
     ((CHR ''a'' \<le> c \<and> c \<le> CHR ''z'') \<or> (CHR ''A'' \<le> c \<and> c \<le> CHR ''Z'')
      \<or> (CHR ''0'' \<le> c \<and> c \<le> CHR ''9'') \<or> c = CHR ''-'')"

text \<open>
  Both \<open>Validate\<close> methods change the request they are called on (the URL is normalised
  in place) and return an error or \<open>nil\<close>: the model returns the request as the method
  leaves it, and the text of the error of the first check that fails, if any.
\<close>

definition CreateURLRequest_Validate ::
  "url_parser \<Rightarrow> time \<Rightarrow> CreateURLRequest \<Rightarrow> CreateURLRequest \<times> string option" where
  "CreateURLRequest_Validate url_Parse now req =
     (if req_URL req = [] then (req, Some ''URL is required'')
      else
        let req1 = req\<lparr>req_URL := strings_TrimSpace (req_URL req)\<rparr>;
            req2 = (if \<not> strings_HasPrefix (req_URL req1) ''http://''
                       \<and> \<not> strings_HasPrefix (req_URL req1) ''https://''
                    then req1\<lparr>req_URL := ''https://'' @ req_URL req1\<rparr>
                    else req1)
        in (req2,
            case url_Parse (req_URL req2) of
              Inl err \<Rightarrow> Some (''invalid URL format: '' @ err)
            | Inr parsedURL \<Rightarrow>
                if Scheme parsedURL = [] \<or> Host parsedURL = []
                then Some ''URL must have scheme and host''
                else if CustomCode req2 \<noteq> []
                        \<and> (length (CustomCode req2) < 3 \<or> length (CustomCode req2) > 20)
                then Some ''custom code must be between 3 and 20 characters''
                else if CustomCode req2 \<noteq> [] \<and> \<not> list_all custom_code_char (CustomCode req2)
                then Some ''custom code must contain only alphanumeric characters''
                else if (case req_ExpiresAt req2 of None \<Rightarrow> False | Some t \<Rightarrow> t < now)
                then Some ''expiration date cannot be in the past''
                else None))"

definition UpdateURLRequest_Validate ::
  "url_parser \<Rightarrow> time \<Rightarrow> UpdateURLRequest \<Rightarrow> UpdateURLRequest \<times> string option" where
  "UpdateURLRequest_Validate url_Parse now req =
     (let req2 =
        (if upd_OriginalURL req \<noteq> []
         then
           let req1 = req\<lparr>upd_OriginalURL := strings_TrimSpace (upd_OriginalURL req)\<rparr>
           in if \<not> strings_HasPrefix (upd_OriginalURL req1) ''http://''
                 \<and> \<not> strings_HasPrefix (upd_OriginalURL req1) ''https://''
              then req1\<lparr>upd_OriginalURL := ''https://'' @ upd_OriginalURL req1\<rparr>
              else req1
         else req);
          url_err =
        (if upd_OriginalURL req \<noteq> []
         then (case url_Parse (upd_OriginalURL req2) of
                 Inl err \<Rightarrow> Some (''invalid URL format: '' @ err)
               | Inr parsedURL \<Rightarrow>
                   if Scheme parsedURL = [] \<or> Host parsedURL = []
                   then Some ''URL must have scheme and host''
                   else None)
         else None)
      in (req2,
          case url_err of
            Some err \<Rightarrow> Some err
          | None \<Rightarrow>
              if (case upd_ExpiresAt req2 of None \<Rightarrow> False | Some t \<Rightarrow> t < now)
              then Some ''expiration date cannot be in the past''
              else None))"

section \<open>Errors (package errors)\<close>

type_synonym ErrorCode = string

definition ErrCodeValidation :: ErrorCode where "ErrCodeValidation = ''VALIDATION_ERROR''"
definition ErrCodeNotFound :: ErrorCode where "ErrCodeNotFound = ''NOT_FOUND''"
definition ErrCodeInactive :: ErrorCode where "ErrCodeInactive = ''URL_INACTIVE''"
definition ErrCodeExpired :: ErrorCode where "ErrCodeExpired = ''URL_EXPIRED''"
definition ErrCodeAlreadyExists :: ErrorCode where "ErrCodeAlreadyExists = ''ALREADY_EXISTS''"
definition ErrCodeForbidden :: ErrorCode where "ErrCodeForbidden = ''FORBIDDEN''"
definition ErrCodeInternal :: ErrorCode where "ErrCodeInternal = ''INTERNAL_ERROR''"
definition ErrCodeDatabase :: ErrorCode where "ErrCodeDatabase = ''DATABASE_ERROR''"

definition StatusBadRequest :: int where "StatusBadRequest = 400"
definition StatusUnauthorized :: int where "StatusUnauthorized = 401"
definition StatusForbidden :: int where "StatusForbidden = 403"
definition StatusNotFound :: int where "StatusNotFound = 404"
definition StatusConflict :: int where "StatusConflict = 409"
definition StatusGone :: int where "StatusGone = 410"
definition StatusInternalServerError :: int where "StatusInternalServerError = 500"
definition StatusOK :: int where "StatusOK = 200"

text \<open>
  The wrapped error \<open>Err\<close> is kept as its text (\<open>None\<close> is \<open>nil\<close>): every error the
  service wraps is a plain error made by a repository or by \<open>Validate\<close>.
\<close>

record AppError =
  Code :: ErrorCode
  Message :: string
  Details :: string
  StatusCode :: int
  Err :: "string option"

definition NewAppError :: "ErrorCode \<Rightarrow> string \<Rightarrow> int \<Rightarrow> string option \<Rightarrow> AppError" where
  "NewAppError code message statusCode err =
     \<lparr>Code = code, Message = message, Details = [], StatusCode = statusCode, Err = err\<rparr>"

definition NewValidationError :: "string \<Rightarrow> string option \<Rightarrow> AppError" where
  "NewValidationError message err = NewAppError ErrCodeValidation message StatusBadRequest err"

definition NewNotFoundError :: "string \<Rightarrow> string option \<Rightarrow> AppError" where
  "NewNotFoundError message err = NewAppError ErrCodeNotFound message StatusNotFound err"

definition NewInactiveError :: "string \<Rightarrow> string option \<Rightarrow> AppError" where
  "NewInactiveError message err = NewAppError ErrCodeInactive message StatusGone err"

definition NewExpiredError :: "string \<Rightarrow> string option \<Rightarrow> AppError" where
  "NewExpiredError message err = NewAppError ErrCodeExpired message StatusGone err"

definition NewAlreadyExistsError :: "string \<Rightarrow> string option \<Rightarrow> AppError" where
  "NewAlreadyExistsError message err = NewAppError ErrCodeAlreadyExists message StatusConflict err"

definition NewForbiddenError :: "string \<Rightarrow> string option \<Rightarrow> AppError" where
  "NewForbiddenError message err = NewAppError ErrCodeForbidden message StatusForbidden err"

definition NewInternalError :: "string \<Rightarrow> string option \<Rightarrow> AppError" where
  "NewInternalError message err =
     NewAppError ErrCodeInternal message StatusInternalServerError err"

definition NewDatabaseError :: "string \<Rightarrow> string option \<Rightarrow> AppError" where
  "NewDatabaseError message err =
     NewAppError ErrCodeDatabase message StatusInternalServerError err"

text \<open>A value of Go's interface \<open>error\<close>: an \<open>*AppError\<close>, or some other error.\<close>

datatype error = AppErr AppError | PlainErr string

definition GetAppError :: "error \<Rightarrow> AppError option" where
  "GetAppError err = (case err of AppErr appErr \<Rightarrow> Some appErr | PlainErr _ \<Rightarrow> None)"

record ErrorDetail =
  detail_Code :: ErrorCode
  detail_Message :: string
  detail_Details :: string

definition ToErrorResponse :: "AppError \<Rightarrow> ErrorDetail" where
  "ToErrorResponse e =
     \<lparr>detail_Code = Code e, detail_Message = Message e, detail_Details = Details e\<rparr>"

section \<open>The database, the cache and the random source\<close>

text \<open>
  The state the service works on.  Table \<open>urls\<close> has a unique constraint on
  \<open>short_code\<close>, so its rows are a map from the short code: the key is the value of
  column \<open>short_code\<close>, and a row that is read carries its key as \<open>ShortCode\<close>.
  Table \<open>users\<close> is a map from the id.  The Redis cache maps a key to its value and the
  instant the entry expires.  A statement on the database fails with the driver's error
  text while \<open>db_fault\<close> is set, and a Redis command fails while \<open>redis_fault\<close> is
  set.  \<open>crypto/rand\<close> delivers the bytes \<open>rand_src 0\<close>, \<open>rand_src 1\<close>, ... and
  \<open>rand_pos\<close> counts those already read.  An operation of the service reads the clock
  once: it is given the time \<open>now\<close> of the call.
\<close>

type_synonym byte = "8 word"

record world =
  urls :: "string \<rightharpoonup> URL"
  users :: "int \<rightharpoonup> User"
  urls_id_seq :: int
  redis :: "string \<rightharpoonup> string \<times> time"
  db_fault :: "string option"
  redis_fault :: "string option"
  rand_src :: "nat \<Rightarrow> byte"
  rand_pos :: nat

text \<open>The texts of the driver's errors for a violated constraint and for an empty result.\<close>

definition pq_unique_violation :: string where
  \<open>pq_unique_violation =
     ''pq: duplicate key value violates unique constraint "urls_short_code_key"''\<close>

definition pq_foreign_key_violation :: string where
  \<open>pq_foreign_key_violation =
     ''pq: insert or update on table "urls" violates foreign key constraint "fk_urls_user_id"''\<close>

definition sql_ErrNoRows :: string where
  "sql_ErrNoRows = ''sql: no rows in result set''"

subsection \<open>urlRepository and userRepository\<close>

text \<open>
  \<open>Create\<close> inserts the row and returns the URL with the id the sequence gave it.  The
  insert is refused when the short code is already in the table (the unique constraint) or
  the user is not (the foreign key); a refused insert has still drawn from the sequence.
  Trigger \<open>urls_insert_trigger\<close> adds one to the owner's \<open>link_count\<close>.  The checks
  of the column types (the length of \<open>short_code\<close>, the format of \<open>ip_address\<close>) are
  left out.
\<close>

definition urlRepository_Create :: "world \<Rightarrow> URL \<Rightarrow> (string + URL) \<times> world" where
  "urlRepository_Create w url =
     (case db_fault w of
        Some e \<Rightarrow> (Inl (''failed to create URL: '' @ e), w)
      | None \<Rightarrow>
          let w1 = w\<lparr>urls_id_seq := urls_id_seq w + 1\<rparr>
          in if urls w (ShortCode url) \<noteq> None
             then (Inl (''failed to create URL: '' @ pq_unique_violation), w1)
             else
               (case users w (UserID url) of
                  None \<Rightarrow> (Inl (''failed to create URL: '' @ pq_foreign_key_violation), w1)
                | Some owner \<Rightarrow>
                    let url1 = url\<lparr>ID := urls_id_seq w1\<rparr>
                    in (Inr url1,
                        w1\<lparr>urls := (urls w)(ShortCode url \<mapsto> url1\<lparr>ClickCount := 0\<rparr>),
                           users := (users w)(UserID url \<mapsto>
                                      owner\<lparr>LinkCount := LinkCount owner + 1\<rparr>)\<rparr>)))"

definition urlRepository_GetByShortCode :: "world \<Rightarrow> string \<Rightarrow> string + URL" where
  "urlRepository_GetByShortCode w shortCode =
     (case db_fault w of
        Some e \<Rightarrow> Inl (''failed to get URL: '' @ e)
      | None \<Rightarrow>
          (case urls w shortCode of
             None \<Rightarrow> Inl ''URL not found''
           | Some row \<Rightarrow> Inr (row\<lparr>ShortCode := shortCode\<rparr>)))"

text \<open>
  \<open>Update\<close> writes the target, the active flag and the expiry of the row with the URL's
  short code, stamps it with the time of the call, and reads the row's id and time stamps
  back into the URL it returns.
\<close>

definition urlRepository_Update :: "world \<Rightarrow> time \<Rightarrow> URL \<Rightarrow> (string + URL) \<times> world" where
  "urlRepository_Update w now url =
     (case db_fault w of
        Some e \<Rightarrow> (Inl (''failed to update URL: '' @ e), w)
      | None \<Rightarrow>
          (case urls w (ShortCode url) of
             None \<Rightarrow> (Inl (''failed to update URL: '' @ sql_ErrNoRows), w)
           | Some row \<Rightarrow>
               let row1 = row\<lparr>OriginalURL := OriginalURL url, IsActive := IsActive url,
                              ExpiresAt := ExpiresAt url, UpdatedAt := now\<rparr>
               in (Inr (url\<lparr>ID := ID row1, CreatedAt := CreatedAt row1,
                             UpdatedAt := UpdatedAt row1\<rparr>),
                   w\<lparr>urls := (urls w)(ShortCode url \<mapsto> row1)\<rparr>)))"

text \<open>
  \<open>DeleteByUser\<close> deletes the row when it belongs to the user; trigger
  \<open>urls_delete_trigger\<close> then takes one from the owner's \<open>link_count\<close>, not below 0.
\<close>

definition urlRepository_DeleteByUser :: "world \<Rightarrow> string \<Rightarrow> int \<Rightarrow> string option \<times> world" where
  "urlRepository_DeleteByUser w shortCode userID =
     (case db_fault w of
        Some e \<Rightarrow> (Some (''failed to delete URL: '' @ e), w)
      | None \<Rightarrow>
          (case urls w shortCode of
             None \<Rightarrow> (Some ''URL not found or not owned by user'', w)
           | Some row \<Rightarrow>
               if UserID row \<noteq> userID then (Some ''URL not found or not owned by user'', w)
               else
                 (None,
                  w\<lparr>urls := (urls w)(shortCode := None),
                    users := (case users w userID of
                                None \<Rightarrow> users w
                              | Some owner \<Rightarrow>
                                  (users w)(userID \<mapsto>
                                     owner\<lparr>LinkCount := max (LinkCount owner - 1) 0\<rparr>))\<rparr>)))"

definition urlRepository_ExistsByShortCode :: "world \<Rightarrow> string \<Rightarrow> string + bool" where
  "urlRepository_ExistsByShortCode w shortCode =
     (case db_fault w of
        Some e \<Rightarrow> Inl (''failed to check URL existence: '' @ e)
      | None \<Rightarrow> Inr (urls w shortCode \<noteq> None))"

definition urlRepository_CheckOwnership :: "world \<Rightarrow> string \<Rightarrow> int \<Rightarrow> string + bool" where
  "urlRepository_CheckOwnership w shortCode userID =
     (case db_fault w of
        Some e \<Rightarrow> Inl (''failed to check ownership: '' @ e)
      | None \<Rightarrow>
          Inr (case urls w shortCode of
                 None \<Rightarrow> False
               | Some row \<Rightarrow> UserID row = userID))"

definition userRepository_GetByID :: "world \<Rightarrow> int \<Rightarrow> string + User" where
  "userRepository_GetByID w uid =
     (case db_fault w of
        Some e \<Rightarrow> Inl (''failed to get user: '' @ e)
      | None \<Rightarrow>
          (case users w uid of
             None \<Rightarrow> Inl ''user not found''
           | Some user \<Rightarrow> Inr user))"

subsection \<open>cacheRepository\<close>

definition cacheRepository_SetURL ::
  "world \<Rightarrow> time \<Rightarrow> string \<Rightarrow> string \<Rightarrow> int \<Rightarrow> string option \<times> world" where
  "cacheRepository_SetURL w now shortCode originalURL expiration =
     (let key = ''url:'' @ shortCode
      in case redis_fault w of
           Some e \<Rightarrow> (Some e, w)
         | None \<Rightarrow> (None, w\<lparr>redis := (redis w)(key \<mapsto> (originalURL, now + expiration))\<rparr>))"

definition cacheRepository_DeleteURL :: "world \<Rightarrow> string \<Rightarrow> string option \<times> world" where
  "cacheRepository_DeleteURL w shortCode =
     (let key = ''url:'' @ shortCode
      in case redis_fault w of
           Some e \<Rightarrow> (Some e, w)
         | None \<Rightarrow> (None, w\<lparr>redis := (redis w)(key := None)\<rparr>))"

section \<open>The URL service (package services)\<close>

text \<open>Verb \<open>%d\<close> of package \<open>fmt\<close>: an integer in decimal.\<close>

fun fmt_d_nat :: "nat \<Rightarrow> string" where
  "fmt_d_nat n =
     (if n < 10 then [''0123456789'' ! n]
      else fmt_d_nat (n div 10) @ [''0123456789'' ! (n mod 10)])"

declare fmt_d_nat.simps [simp del]

definition fmt_d :: "int \<Rightarrow> string" where
  "fmt_d i = (if i < 0 then CHR ''-'' # fmt_d_nat (nat (- i)) else fmt_d_nat (nat i))"

record urlService =
  baseURL :: string

subsection \<open>Short codes\<close>

text \<open>
  \<open>randomInt\<close> reads one byte of the random source and reduces it modulo \<open>max\<close>.  Its
  only caller passes the length of the character set, 62; with \<open>max = 0\<close> the Go code
  would panic.
\<close>

definition randomInt :: "world \<Rightarrow> nat \<Rightarrow> nat \<times> world" where
  "randomInt w m =
     (let b = rand_src w (rand_pos w)
      in (unat b mod m, w\<lparr>rand_pos := Suc (rand_pos w)\<rparr>))"

definition charset :: string where
  "charset = ''abcdefghijklmnopqrstuvwxyzABCDEFGHIJKLMNOPQRSTUVWXYZ0123456789''"

text \<open>The loop over the \<open>length\<close> bytes of the code, one call of \<open>randomInt\<close> for each.\<close>

fun generateShortCode_loop :: "nat \<Rightarrow> world \<Rightarrow> string \<times> world" where
  "generateShortCode_loop 0 w = ([], w)"
| "generateShortCode_loop (Suc n) w =
     (let (k, w1) = randomInt w (length charset);
          (bytes, w2) = generateShortCode_loop n w1
      in (charset ! k # bytes, w2))"

definition generateShortCode :: "world \<Rightarrow> string \<times> world" where
  "generateShortCode w = (let length = 8 in generateShortCode_loop length w)"

text \<open>The loop \<open>for i := 0; i < maxAttempts; i++\<close>.\<close>

function generateUniqueShortCode_loop ::
  "nat \<Rightarrow> nat \<Rightarrow> world \<Rightarrow> (string + string) \<times> world" where
  "generateUniqueShortCode_loop maxAttempts i w =
     (if i < maxAttempts
      then
        let (shortCode, w1) = generateShortCode w
        in case urlRepository_ExistsByShortCode w1 shortCode of
             Inl err \<Rightarrow> (Inl err, w1)
           | Inr exists \<Rightarrow>
               if \<not> exists then (Inr shortCode, w1)
               else generateUniqueShortCode_loop maxAttempts (Suc i) w1
      else
        (Inl (''failed to generate unique short code after '' @ fmt_d (int maxAttempts)
              @ '' attempts''), w))"
  by pat_completeness auto
termination
  by (relation "measure (\<lambda>(maxAttempts, i, w). maxAttempts - i)") auto

declare generateUniqueShortCode_loop.simps [simp del]

definition generateUniqueShortCode :: "world \<Rightarrow> (string + string) \<times> world" where
  "generateUniqueShortCode w =
     (let maxAttempts = 10 in generateUniqueShortCode_loop maxAttempts 0 w)"

subsection \<open>CreateURL\<close>

text \<open>
  The check that a short code is free and the insert are two statements on the database,
  and other requests are served in between.  \<open>concurrent\<close> is what they do to the state
  between the two statements; it is the identity when the request runs alone.
\<close>

definition CreateURL ::
  "url_parser \<Rightarrow> (world \<Rightarrow> world) \<Rightarrow> urlService \<Rightarrow> world \<Rightarrow> time \<Rightarrow> CreateURLRequest \<Rightarrow> int
     \<Rightarrow> string \<Rightarrow> string \<Rightarrow> (AppError + CreateURLResponse) \<times> world" where
  "CreateURL url_Parse concurrent s w now req userID clientIP userAgent =
     (case CreateURLRequest_Validate url_Parse now req of
        (req, Some err) \<Rightarrow> (Inl (NewValidationError ''Invalid request'' (Some err)), w)
      | (req, None) \<Rightarrow>
          (case userRepository_GetByID w userID of
             Inl err \<Rightarrow> (Inl (NewDatabaseError ''Failed to get user'' (Some err)), w)
           | Inr user \<Rightarrow>
               if \<not> CanCreateLink user
               then (Inl (NewValidationError
                            (''Link limit exceeded. You can create maximum ''
                               @ fmt_d (LinkLimit user) @ '' links'') None), w)
               else
                 (case
                    (if CustomCode req = []
                     then
                       (case generateUniqueShortCode w of
                          (Inl err, w1) \<Rightarrow>
                            (Inl (NewInternalError ''Failed to generate short code'' (Some err)),
                             w1)
                        | (Inr shortCode, w1) \<Rightarrow> (Inr shortCode, w1))
                     else
                       (case urlRepository_ExistsByShortCode w (CustomCode req) of
                          Inl err \<Rightarrow>
                            (Inl (NewDatabaseError ''Failed to check short code existence''
                                    (Some err)), w)
                        | Inr exists \<Rightarrow>
                            if exists
                            then (Inl (NewAlreadyExistsError ''Custom short code already exists''
                                         None), w)
                            else (Inr (CustomCode req), w)))
                  of
                    (Inl e, w1) \<Rightarrow> (Inl e, w1)
                  | (Inr shortCode, w1) \<Rightarrow>
                      let url = \<lparr>ID = 0, ShortCode = shortCode, OriginalURL = req_URL req,
                                 UserID = userID, CreatedAt = now, UpdatedAt = now,
                                 ClickCount = 0, IsActive = True,
                                 ExpiresAt = req_ExpiresAt req, UserAgent = userAgent,
                                 IPAddress = clientIP\<rparr>
                      in (case urlRepository_Create (concurrent w1) url of
                           (Inl err, w2) \<Rightarrow>
                             (Inl (NewDatabaseError ''Failed to create URL'' (Some err)), w2)
                         | (Inr createdURL, w2) \<Rightarrow>
                             let (cache_err, w3) =
                                   cacheRepository_SetURL w2 now shortCode (req_URL req)
                                     (24 * Hour)
                             in (Inr \<lparr>resp_ID = ID createdURL,
                                      resp_ShortCode = ShortCode createdURL,
                                      resp_OriginalURL = OriginalURL createdURL,
                                      resp_ShortURL = baseURL s @ ''/'' @ ShortCode createdURL,
                                      resp_IsActive = IsActive createdURL,
                                      resp_CreatedAt = CreatedAt createdURL,
                                      resp_ExpiresAt = ExpiresAt createdURL,
                                      resp_QRCode = baseURL s @ ''/api/v1/urls/''
                                        @ ShortCode createdURL @ ''/qr''\<rparr>,
                                 w3)))))"

subsection \<open>GetURL\<close>

definition GetURL :: "world \<Rightarrow> time \<Rightarrow> string \<Rightarrow> (AppError + URL) \<times> world" where
  "GetURL w now shortCode =
     (if shortCode = [] then (Inl (NewValidationError ''Short code is required'' None), w)
      else
        case urlRepository_GetByShortCode w shortCode of
          Inl err \<Rightarrow>
            if strings_Contains err ''not found''
            then (Inl (NewNotFoundError ''URL not found'' (Some err)), w)
            else (Inl (NewDatabaseError ''Failed to get URL'' (Some err)), w)
        | Inr url \<Rightarrow>
            if IsExpired now url
            then (Inl (NewExpiredError ''URL has expired'' None),
                  snd (cacheRepository_DeleteURL w shortCode))
            else if \<not> IsActive url
            then (Inl (NewInactiveError ''URL is not active'' None),
                  snd (cacheRepository_DeleteURL w shortCode))
            else (Inr url,
                  snd (cacheRepository_SetURL w now shortCode (OriginalURL url) (24 * Hour))))"

subsection \<open>DeleteURL\<close>

definition DeleteURL :: "world \<Rightarrow> string \<Rightarrow> int \<Rightarrow> AppError option \<times> world" where
  "DeleteURL w shortCode userID =
     (if shortCode = [] then (Some (NewValidationError ''Short code is required'' None), w)
      else
        case urlRepository_CheckOwnership w shortCode userID of
          Inl err \<Rightarrow> (Some (NewDatabaseError ''Failed to check URL ownership'' (Some err)), w)
        | Inr owned \<Rightarrow>
            if \<not> owned
            then (Some (NewForbiddenError ''URL not found or access denied'' None), w)
            else
              let (cache_err, w1) = cacheRepository_DeleteURL w shortCode
              in (case urlRepository_DeleteByUser w1 shortCode userID of
                    (Some err, w2) \<Rightarrow>
                      (Some (NewDatabaseError ''Failed to delete URL'' (Some err)), w2)
                  | (None, w2) \<Rightarrow> (None, w2)))"

subsection \<open>UpdateURL\<close>

definition UpdateURL ::
  "url_parser \<Rightarrow> world \<Rightarrow> time \<Rightarrow> string \<Rightarrow> UpdateURLRequest \<Rightarrow> int
     \<Rightarrow> (AppError + URL) \<times> world" where
  "UpdateURL url_Parse w now shortCode req userID =
     (if shortCode = [] then (Inl (NewValidationError ''Short code is required'' None), w)
      else
        case UpdateURLRequest_Validate url_Parse now req of
          (req, Some err) \<Rightarrow> (Inl (NewValidationError ''Invalid request'' (Some err)), w)
        | (req, None) \<Rightarrow>
            (case urlRepository_CheckOwnership w shortCode userID of
               Inl err \<Rightarrow>
                 (Inl (NewDatabaseError ''Failed to check URL ownership'' (Some err)), w)
             | Inr owned \<Rightarrow>
                 if \<not> owned
                 then (Inl (NewForbiddenError ''URL not found or access denied'' None), w)
                 else
                   (case urlRepository_GetByShortCode w shortCode of
                      Inl err \<Rightarrow> (Inl (NewDatabaseError ''Failed to get URL'' (Some err)), w)
                    | Inr url \<Rightarrow>
                        let statusChanged = False;
                            url = (if upd_OriginalURL req \<noteq> []
                                   then url\<lparr>OriginalURL := upd_OriginalURL req\<rparr> else url);
                            statusChanged =
                              (case upd_IsActive req of
                                 None \<Rightarrow> statusChanged
                               | Some a \<Rightarrow> if IsActive url \<noteq> a then True else statusChanged);
                            url = (case upd_IsActive req of
                                     None \<Rightarrow> url
                                   | Some a \<Rightarrow> url\<lparr>IsActive := a\<rparr>);
                            statusChanged =
                              (case upd_ExpiresAt req of
                                 None \<Rightarrow> statusChanged
                               | Some t \<Rightarrow>
                                   if ExpiresAt url = None
                                      \<or> (ExpiresAt url \<noteq> None \<and> the (ExpiresAt url) \<noteq> t)
                                   then True else statusChanged);
                            url = (case upd_ExpiresAt req of
                                     None \<Rightarrow> url
                                   | Some t \<Rightarrow> url\<lparr>ExpiresAt := Some t\<rparr>);
                            url = url\<lparr>UpdatedAt := now\<rparr>
                        in (case urlRepository_Update w now url of
                             (Inl err, w1) \<Rightarrow>
                               (Inl (NewDatabaseError ''Failed to update URL'' (Some err)), w1)
                           | (Inr updatedURL, w1) \<Rightarrow>
                               if statusChanged \<or> \<not> IsActive updatedURL
                                  \<or> IsExpired now updatedURL
                               then (Inr updatedURL,
                                     snd (cacheRepository_DeleteURL w1 shortCode))
                               else (Inr updatedURL,
                                     snd (cacheRepository_SetURL w1 now shortCode
                                            (OriginalURL updatedURL) (24 * Hour)))))))"

section \<open>The HTTP handlers (package handlers)\<close>

text \<open>
  A response is a status code and a JSON body.  The handlers read the user id that the
  authentication middleware left in the context (\<open>None\<close> when there is none) and, for an
  update, the request bound from the JSON body (or the error of binding it).
\<close>

datatype body =
  H_error string
| H_message string
| JSON_ErrorResponse ErrorDetail
| JSON_URL URL

definition handleError :: "error \<Rightarrow> int \<times> body" where
  "handleError err =
     (case GetAppError err of
        Some appErr \<Rightarrow> (StatusCode appErr, JSON_ErrorResponse (ToErrorResponse appErr))
      | None \<Rightarrow> (StatusInternalServerError, H_error ''Internal server error''))"

definition Handler_UpdateURL ::
  "url_parser \<Rightarrow> world \<Rightarrow> time \<Rightarrow> string \<Rightarrow> int option \<Rightarrow> string + UpdateURLRequest
     \<Rightarrow> (int \<times> body) \<times> world" where
  "Handler_UpdateURL url_Parse w now shortCode user_id bound =
     (case user_id of
        None \<Rightarrow> ((StatusUnauthorized, H_error ''User not authenticated''), w)
      | Some userID \<Rightarrow>
          (case bound of
             Inl err \<Rightarrow> ((StatusBadRequest, H_error err), w)
           | Inr req \<Rightarrow>
               (case UpdateURL url_Parse w now shortCode req userID of
                  (Inl err, w1) \<Rightarrow> (handleError (AppErr err), w1)
                | (Inr url, w1) \<Rightarrow> ((StatusOK, JSON_URL url), w1))))"

definition Handler_DeleteURL :: "world \<Rightarrow> string \<Rightarrow> int option \<Rightarrow> (int \<times> body) \<times> world" where
  "Handler_DeleteURL w shortCode user_id =
     (case user_id of
        None \<Rightarrow> ((StatusUnauthorized, H_error ''User not authenticated''), w)
      | Some userID \<Rightarrow>
          (case DeleteURL w shortCode userID of
             (Some err, w1) \<Rightarrow> (handleError (AppErr err), w1)
           | (None, w1) \<Rightarrow> ((StatusOK, H_message ''URL deleted successfully''), w1)))"

section \<open>Example states\<close>

text \<open>
  A simple stand-in for \<open>url.Parse\<close>, and a state with one link of user 1 that is
  cached, a user below the link limit and a user at the link limit.  They are used in the
  examples only.  The random source of \<open>example_world\<close> delivers zero bytes, so every
  short code generated there is \<open>aaaaaaaa\<close>; that of \<open>example_world_b\<close> delivers
  bytes 1, for the code \<open>bbbbbbbb\<close>.  \<open>example_race\<close> is another request that inserts
  a link with the given short code.
\<close>

definition example_Parse :: url_parser where
  "example_Parse s =
     (if prefix ''https://'' s
      then Inr \<lparr>Scheme = ''https'', Host = takeWhile (\<lambda>c. c \<noteq> CHR ''/'') (drop 8 s)\<rparr>
      else if prefix ''http://'' s
      then Inr \<lparr>Scheme = ''http'', Host = takeWhile (\<lambda>c. c \<noteq> CHR ''/'') (drop 7 s)\<rparr>
      else Inr \<lparr>Scheme = [], Host = []\<rparr>)"

definition example_url :: URL where
  "example_url =
     \<lparr>ID = 1, ShortCode = ''aaaaaaaa'', OriginalURL = ''https://example.com'', UserID = 1,
      CreatedAt = 100, UpdatedAt = 100, ClickCount = 0, IsActive = True,
      ExpiresAt = Some 500, UserAgent = ''curl/8.0'', IPAddress = ''10.0.0.1''\<rparr>"

definition example_world :: world where
  "example_world =
     \<lparr>urls = [''aaaaaaaa'' \<mapsto> example_url],
      users = [1 \<mapsto> \<lparr>user_ID = 1, LinkCount = 1, LinkLimit = 50\<rparr>,
               2 \<mapsto> \<lparr>user_ID = 2, LinkCount = 0, LinkLimit = 0\<rparr>],
      urls_id_seq = 1,
      redis = [''url:aaaaaaaa'' \<mapsto> (''https://example.com'', 100 + 24 * Hour)],
      db_fault = None, redis_fault = None,
      rand_src = (\<lambda>i. 0), rand_pos = 0\<rparr>"

definition example_world_b :: world where
  "example_world_b = example_world\<lparr>rand_src := (\<lambda>i. 1)\<rparr>"

definition example_race :: "string \<Rightarrow> world \<Rightarrow> world" where
  "example_race shortCode w = snd (urlRepository_Create w (example_url\<lparr>ShortCode := shortCode\<rparr>))"

definition example_service :: urlService where
  "example_service = \<lparr>baseURL = ''https://sho.rt''\<rparr>"

definition example_deactivate :: UpdateURLRequest where
  "example_deactivate = \<lparr>upd_OriginalURL = [], upd_IsActive = Some False, upd_ExpiresAt = None\<rparr>"

definition example_create :: "string \<Rightarrow> CreateURLRequest" where
  "example_create customCode =
     \<lparr>req_URL = ''example.com'', CustomCode = customCode, req_ExpiresAt = None\<rparr>"

section \<open>Normalisation\<close>

lemma leadingRune_None_iff:
  "leadingRune rs s = None \<longleftrightarrow> (\<forall>r \<in> set rs. r \<noteq> [] \<longrightarrow> \<not> prefix r s)"
  by (auto simp: leadingRune_def find_None_iff)

lemma trimLeftRunes_fixed:
  "leadingRune rs s = None \<Longrightarrow> trimLeftRunes rs s = s"
  by (simp add: trimLeftRunes.simps [of rs s])

lemma trimLeftRunes_step:
  "leadingRune rs s = Some r \<Longrightarrow> trimLeftRunes rs s = trimLeftRunes rs (drop (length r) s)"
  by (simp add: trimLeftRunes.simps [of rs s])

lemma leadingRune_trimLeftRunes:
  "leadingRune rs (trimLeftRunes rs s) = None"
proof (induction rs s rule: trimLeftRunes.induct)
  case (1 rs s)
  show ?case
  proof (cases "leadingRune rs s")
    case None
    then show ?thesis by (simp add: trimLeftRunes_fixed)
  next
    case (Some r)
    with "1" show ?thesis by (simp add: trimLeftRunes_step)
  qed
qed

lemma suffix_trimLeftRunes:
  "suffix (trimLeftRunes rs s) s"
proof (induction rs s rule: trimLeftRunes.induct)
  case (1 rs s)
  show ?case
  proof (cases "leadingRune rs s")
    case None
    then show ?thesis by (simp add: trimLeftRunes_fixed)
  next
    case (Some r)
    with "1" have "suffix (trimLeftRunes rs (drop (length r) s)) (drop (length r) s)"
      by simp
    moreover have "suffix (drop (length r) s) s"
      by (rule suffix_drop)
    ultimately have "suffix (trimLeftRunes rs (drop (length r) s)) s"
      by (rule suffix_order.trans)
    with Some show ?thesis by (simp add: trimLeftRunes_step)
  qed
qed

lemma prefix_trimRightRunes:
  "prefix (trimRightRunes rs s) s"
  using suffix_trimLeftRunes [of "map rev rs" "rev s"]
  by (simp add: trimRightRunes_def suffix_to_prefix)

lemma trimRightRunes_fixed:
  "leadingRune (map rev rs) (rev s) = None \<Longrightarrow> trimRightRunes rs s = s"
  by (simp add: trimRightRunes_def trimLeftRunes_fixed)

lemma leadingRune_prefix_None:
  assumes "leadingRune rs s = None" and "prefix t s"
  shows "leadingRune rs t = None"
  using assms by (auto simp: leadingRune_None_iff dest: prefix_order.trans)

lemma trimmed_TrimSpace: "trimmed (strings_TrimSpace s)"
proof -
  let ?l = "trimLeftRunes WhiteSpace s"
  have "leadingRune WhiteSpace ?l = None"
    by (rule leadingRune_trimLeftRunes)
  moreover have "prefix (trimRightRunes WhiteSpace ?l) ?l"
    by (rule prefix_trimRightRunes)
  ultimately have "leadingRune WhiteSpace (trimRightRunes WhiteSpace ?l) = None"
    by (rule leadingRune_prefix_None)
  moreover have "leadingRune (map rev WhiteSpace) (rev (trimRightRunes WhiteSpace ?l)) = None"
    by (simp add: trimRightRunes_def leadingRune_trimLeftRunes)
  ultimately show ?thesis
    by (simp add: trimmed_def strings_TrimSpace_def)
qed

lemma TrimSpace_trimmed: "trimmed s \<Longrightarrow> strings_TrimSpace s = s"
  by (simp add: trimmed_def strings_TrimSpace_def trimRightRunes_fixed trimLeftRunes_fixed)

lemma leadingRune_append_other:
  assumes "\<forall>r \<in> set rs. c \<notin> set r" and "leadingRune rs a = None"
  shows "leadingRune rs (a @ c # b) = None"
proof -
  have "\<not> prefix r (a @ c # b)" if "r \<in> set rs" and "r \<noteq> []" for r
  proof
    assume "prefix r (a @ c # b)"
    then consider "prefix r a" | r' where "r = a @ r'" and "prefix r' (c # b)"
      by (auto simp: prefix_append)
    then show False
    proof cases
      case 1
      with assms(2) that show False by (simp add: leadingRune_None_iff)
    next
      case 2
      show False
      proof (cases r')
        case Nil
        with 2 have "prefix r a" by simp
        with assms(2) that show False by (simp add: leadingRune_None_iff)
      next
        case (Cons x xs)
        with 2 have "c \<in> set r" by simp
        with assms(1) that show False by blast
      qed
    qed
  qed
  then show ?thesis by (simp add: leadingRune_None_iff)
qed

lemma WhiteSpace_no_slash: "\<forall>r \<in> set (map rev WhiteSpace). CHR ''/'' \<notin> set r"
  by (simp add: WhiteSpace_def)

lemma leadingRune_h: "leadingRune WhiteSpace (CHR ''h'' # t) = None"
  by (simp add: leadingRune_def WhiteSpace_def)

lemma trimmed_https: "trimmed t \<Longrightarrow> trimmed (''https://'' @ t)"
  using leadingRune_append_other [OF WhiteSpace_no_slash, of "rev t" "''/:sptth''"]
  by (simp add: trimmed_def leadingRune_h)

text \<open>The normalisation step that \<open>NormalizeURL\<close> and both \<open>Validate\<close> methods share.\<close>

lemma normalised_fixed:
  assumes "trimmed t"
  defines "n \<equiv> (if \<not> strings_HasPrefix t ''http://'' \<and> \<not> strings_HasPrefix t ''https://''
                  then ''https://'' @ t else t)"
  shows "strings_TrimSpace n = n"
    and "strings_HasPrefix n ''http://'' \<or> strings_HasPrefix n ''https://''"
    and "n \<noteq> []"
proof -
  have "trimmed n"
    using assms(1) by (simp add: n_def trimmed_https del: append.simps)
  then show "strings_TrimSpace n = n"
    by (rule TrimSpace_trimmed)
  show pre: "strings_HasPrefix n ''http://'' \<or> strings_HasPrefix n ''https://''"
    by (simp add: n_def strings_HasPrefix_def)
  then show "n \<noteq> []"
    by (auto simp: strings_HasPrefix_def)
qed

lemma NormalizeURL_idem: "NormalizeURL (NormalizeURL u) = NormalizeURL u"
proof -
  define t where "t = strings_TrimSpace (OriginalURL u)"
  define n where "n = (if \<not> strings_HasPrefix t ''http://'' \<and> \<not> strings_HasPrefix t ''https://''
                       then ''https://'' @ t else t)"
  have "trimmed t"
    by (simp add: t_def trimmed_TrimSpace)
  then have fixed: "strings_TrimSpace n = n"
    and pre: "strings_HasPrefix n ''http://'' \<or> strings_HasPrefix n ''https://''"
    unfolding n_def by (rule normalised_fixed)+
  have once: "NormalizeURL u = u\<lparr>OriginalURL := n\<rparr>"
    by (simp add: NormalizeURL_def Let_def n_def t_def del: append.simps)
  have "NormalizeURL (u\<lparr>OriginalURL := n\<rparr>) = u\<lparr>OriginalURL := n\<rparr>"
    using pre by (auto simp: NormalizeURL_def Let_def fixed)
  with once show ?thesis by simp
qed

lemma Validate_req_URL:
  "req_URL (fst (CreateURLRequest_Validate url_Parse now req)) =
     (if req_URL req = [] then []
      else if \<not> strings_HasPrefix (strings_TrimSpace (req_URL req)) ''http://''
              \<and> \<not> strings_HasPrefix (strings_TrimSpace (req_URL req)) ''https://''
      then ''https://'' @ strings_TrimSpace (req_URL req)
      else strings_TrimSpace (req_URL req))"
  by (simp add: CreateURLRequest_Validate_def Let_def del: append.simps)

lemma Validate_idem:
  "req_URL (fst (CreateURLRequest_Validate url_Parse now2
       (fst (CreateURLRequest_Validate url_Parse now1 req))))
   = req_URL (fst (CreateURLRequest_Validate url_Parse now1 req))"
proof (cases "req_URL req = []")
  case True
  then show ?thesis by (simp add: Validate_req_URL)
next
  case False
  define t where "t = strings_TrimSpace (req_URL req)"
  define n where "n = (if \<not> strings_HasPrefix t ''http://'' \<and> \<not> strings_HasPrefix t ''https://''
                       then ''https://'' @ t else t)"
  have "trimmed t"
    by (simp add: t_def trimmed_TrimSpace)
  then have fixed: "strings_TrimSpace n = n"
    and pre: "strings_HasPrefix n ''http://'' \<or> strings_HasPrefix n ''https://''"
    and ne: "n \<noteq> []"
    unfolding n_def by (rule normalised_fixed)+
  have once: "req_URL (fst (CreateURLRequest_Validate url_Parse now1 req)) = n"
    using False by (simp add: Validate_req_URL n_def t_def del: append.simps)
  have "req_URL (fst (CreateURLRequest_Validate url_Parse now2
       (fst (CreateURLRequest_Validate url_Parse now1 req)))) = n"
    using pre ne by (subst Validate_req_URL) (auto simp: once fixed)
  with once show ?thesis by simp
qed

lemma TrimSpace_example: "strings_TrimSpace ''example.com'' = ''example.com''"
  by (simp add: TrimSpace_trimmed trimmed_def leadingRune_def WhiteSpace_def)

lemma TrimSpace_https_example: "strings_TrimSpace ''https://example.com'' = ''https://example.com''"
  by (simp add: TrimSpace_trimmed trimmed_def leadingRune_def WhiteSpace_def)

lemma NormalizeURL_examples:
  "OriginalURL (NormalizeURL (u\<lparr>OriginalURL := ''example.com''\<rparr>)) = ''https://example.com''"
  "OriginalURL (NormalizeURL (u\<lparr>OriginalURL := ''https://example.com''\<rparr>))
     = ''https://example.com''"
  by (simp_all add: NormalizeURL_def TrimSpace_example TrimSpace_https_example
      strings_HasPrefix_def)

lemma Validate_examples:
  "req_URL (fst (CreateURLRequest_Validate url_Parse now1 (req\<lparr>req_URL := ''example.com''\<rparr>)))
     = ''https://example.com''"
  "req_URL (fst (CreateURLRequest_Validate url_Parse now1
                  (req\<lparr>req_URL := ''https://example.com''\<rparr>)))
     = ''https://example.com''"
  by (simp_all add: Validate_req_URL TrimSpace_example TrimSpace_https_example
      strings_HasPrefix_def)

text \<open>
  Claim C8.  Normalising a URL twice gives the same result as normalising it once, for
  \<open>NormalizeURL\<close> and for the normalisation that \<open>CreateURLRequest.Validate\<close> does on
  the request; \<open>example.com\<close> becomes \<open>https://example.com\<close>, and
  \<open>https://example.com\<close> stays as it is.
\<close>

theorem normalisation_idempotent:
  "NormalizeURL (NormalizeURL u) = NormalizeURL u
   \<and> req_URL (fst (CreateURLRequest_Validate url_Parse now2
                    (fst (CreateURLRequest_Validate url_Parse now1 req))))
       = req_URL (fst (CreateURLRequest_Validate url_Parse now1 req))
   \<and> OriginalURL (NormalizeURL (u\<lparr>OriginalURL := ''example.com''\<rparr>)) = ''https://example.com''
   \<and> OriginalURL (NormalizeURL (u\<lparr>OriginalURL := ''https://example.com''\<rparr>))
       = ''https://example.com''
   \<and> req_URL (fst (CreateURLRequest_Validate url_Parse now1 (req\<lparr>req_URL := ''example.com''\<rparr>)))
       = ''https://example.com''
   \<and> req_URL (fst (CreateURLRequest_Validate url_Parse now1
                    (req\<lparr>req_URL := ''https://example.com''\<rparr>)))
       = ''https://example.com''"
  by (intro conjI NormalizeURL_idem Validate_idem NormalizeURL_examples Validate_examples)

theorem normalisation_idempotent_witness:
  "NormalizeURL (NormalizeURL (example_url\<lparr>OriginalURL := ''  example.com ''\<rparr>))
     = NormalizeURL (example_url\<lparr>OriginalURL := ''  example.com ''\<rparr>)"
  using normalisation_idempotent [of "example_url\<lparr>OriginalURL := ''  example.com ''\<rparr>"]
  by simp

section \<open>Looking a link up\<close>

text \<open>
  Claim C2.  When the stored record of a short code has \<open>expiresAt\<close> in the past,
  \<open>GetURL\<close> returns the expired error, whatever the cache holds, and leaves the state
  that deleting the code's cache entry leaves: the entry is gone once the Redis command
  succeeds (the code discards the command's error).
\<close>

theorem GetURL_expired:
  assumes "shortCode \<noteq> []" and "db_fault w = None" and "urls w shortCode = Some url"
    and "ExpiresAt url = Some t" and "t < now"
  shows "fst (GetURL w now shortCode) = Inl (NewExpiredError ''URL has expired'' None)
         \<and> snd (GetURL w now shortCode) = snd (cacheRepository_DeleteURL w shortCode)
         \<and> (redis_fault w = None \<longrightarrow>
              redis (snd (GetURL w now shortCode)) (''url:'' @ shortCode) = None)"
  using assms
  by (simp add: GetURL_def urlRepository_GetByShortCode_def IsExpired_def
      cacheRepository_DeleteURL_def)

theorem GetURL_expired_witness:
  "redis example_world ''url:aaaaaaaa'' \<noteq> None
   \<and> fst (GetURL example_world 501 ''aaaaaaaa'') = Inl (NewExpiredError ''URL has expired'' None)
   \<and> redis (snd (GetURL example_world 501 ''aaaaaaaa'')) ''url:aaaaaaaa'' = None"
  using GetURL_expired [of "''aaaaaaaa''" example_world example_url 500 501]
  by (simp add: example_world_def example_url_def cacheRepository_DeleteURL_def)

text \<open>
  Claim C9.  For a stored link that is both expired and inactive, \<open>GetURL\<close> returns the
  expired error and not the inactive error: the expiry is checked first.
\<close>

theorem GetURL_expired_before_inactive:
  assumes "shortCode \<noteq> []" and "db_fault w = None" and "urls w shortCode = Some url"
    and "ExpiresAt url = Some t" and "t < now" and "\<not> IsActive url"
  shows "fst (GetURL w now shortCode) = Inl (NewExpiredError ''URL has expired'' None)
         \<and> fst (GetURL w now shortCode) \<noteq> Inl (NewInactiveError ''URL is not active'' None)
         \<and> Code (NewExpiredError ''URL has expired'' None) = ErrCodeExpired
         \<and> ErrCodeExpired \<noteq> ErrCodeInactive"
  using assms
  by (simp add: GetURL_def urlRepository_GetByShortCode_def IsExpired_def
      NewExpiredError_def NewInactiveError_def NewAppError_def ErrCodeExpired_def
      ErrCodeInactive_def)

theorem GetURL_expired_before_inactive_witness:
  "fst (GetURL (example_world\<lparr>urls := [''aaaaaaaa'' \<mapsto> example_url\<lparr>IsActive := False\<rparr>]\<rparr>)
          501 ''aaaaaaaa'')
     = Inl (NewExpiredError ''URL has expired'' None)"
  using GetURL_expired_before_inactive [of "''aaaaaaaa''"
      "example_world\<lparr>urls := [''aaaaaaaa'' \<mapsto> example_url\<lparr>IsActive := False\<rparr>]\<rparr>"
      "example_url\<lparr>IsActive := False\<rparr>" 500 501]
  by (simp add: example_world_def example_url_def)

section \<open>Codes of another owner\<close>

text \<open>
  Claim C1, as the code has it.  When the short code exists but belongs to another owner,
  \<open>DeleteURL\<close> and \<open>UpdateURL\<close> (on a request that passes validation) return the
  forbidden error with message \<open>URL not found or access denied\<close>, and \<open>handleError\<close>
  sends it as it is: status 403 with code \<open>FORBIDDEN\<close>.
\<close>

theorem foreign_code_Forbidden:
  assumes "shortCode \<noteq> []" and "db_fault w = None" and "urls w shortCode = Some row"
    and "UserID row \<noteq> userID"
    and "snd (UpdateURLRequest_Validate url_Parse now req) = None"
  shows "DeleteURL w shortCode userID
           = (Some (NewForbiddenError ''URL not found or access denied'' None), w)
         \<and> UpdateURL url_Parse w now shortCode req userID
           = (Inl (NewForbiddenError ''URL not found or access denied'' None), w)
         \<and> Handler_DeleteURL w shortCode (Some userID)
           = ((StatusForbidden,
               JSON_ErrorResponse \<lparr>detail_Code = ErrCodeForbidden,
                 detail_Message = ''URL not found or access denied'', detail_Details = []\<rparr>), w)
         \<and> Handler_UpdateURL url_Parse w now shortCode (Some userID) (Inr req)
           = ((StatusForbidden,
               JSON_ErrorResponse \<lparr>detail_Code = ErrCodeForbidden,
                 detail_Message = ''URL not found or access denied'', detail_Details = []\<rparr>), w)"
proof -
  have own: "urlRepository_CheckOwnership w shortCode userID = Inr False"
    using assms by (simp add: urlRepository_CheckOwnership_def)
  have del: "DeleteURL w shortCode userID
           = (Some (NewForbiddenError ''URL not found or access denied'' None), w)"
    using assms(1) own by (simp add: DeleteURL_def)
  have upd: "UpdateURL url_Parse w now shortCode req userID
           = (Inl (NewForbiddenError ''URL not found or access denied'' None), w)"
    using assms(1,5) own by (auto simp: UpdateURL_def split: prod.splits)
  have resp: "handleError (AppErr (NewForbiddenError ''URL not found or access denied'' None))
           = (StatusForbidden,
               JSON_ErrorResponse \<lparr>detail_Code = ErrCodeForbidden,
                 detail_Message = ''URL not found or access denied'', detail_Details = []\<rparr>)"
    by (simp add: handleError_def GetAppError_def ToErrorResponse_def NewForbiddenError_def
        NewAppError_def)
  show ?thesis
    by (simp add: del upd resp Handler_DeleteURL_def Handler_UpdateURL_def)
qed

theorem foreign_code_Forbidden_witness:
  "DeleteURL example_world ''aaaaaaaa'' 2
     = (Some (NewForbiddenError ''URL not found or access denied'' None), example_world)
   \<and> UpdateURL example_Parse example_world 200 ''aaaaaaaa''
       \<lparr>upd_OriginalURL = [], upd_IsActive = Some False, upd_ExpiresAt = None\<rparr> 2
     = (Inl (NewForbiddenError ''URL not found or access denied'' None), example_world)"
proof -
  have "urls example_world ''aaaaaaaa'' = Some example_url" and "db_fault example_world = None"
    and "UserID example_url \<noteq> 2"
    and "snd (UpdateURLRequest_Validate example_Parse 200
           \<lparr>upd_OriginalURL = [], upd_IsActive = Some False, upd_ExpiresAt = None\<rparr>) = None"
    by (simp_all add: example_world_def example_url_def UpdateURLRequest_Validate_def)
  from foreign_code_Forbidden [OF _ this(2,1,3,4)] show ?thesis
    by simp
qed

text \<open>
  A short code that does not exist gets the same error from \<open>DeleteURL\<close> as the code of
  another owner: the ownership check counts the rows with this code and this owner.
\<close>

lemma missing_code_Forbidden:
  assumes "shortCode \<noteq> []" and "db_fault w = None" and "urls w shortCode = None"
  shows "DeleteURL w shortCode userID
           = (Some (NewForbiddenError ''URL not found or access denied'' None), w)"
  using assms by (simp add: DeleteURL_def urlRepository_CheckOwnership_def)

text \<open>
  Claim C1, as stated, fails: user 2 deleting the link of user 1 gets the forbidden error,
  status 403, and not the not-found error with status 404.
\<close>

theorem foreign_code_NotFound_counterexample:
  "urls example_world ''aaaaaaaa'' = Some example_url
   \<and> UserID example_url \<noteq> 2
   \<and> fst (DeleteURL example_world ''aaaaaaaa'' 2)
       = Some (NewForbiddenError ''URL not found or access denied'' None)
   \<and> Code (NewForbiddenError ''URL not found or access denied'' None) \<noteq> ErrCodeNotFound
   \<and> fst (Handler_DeleteURL example_world ''aaaaaaaa'' (Some 2))
       = (403, JSON_ErrorResponse \<lparr>detail_Code = ''FORBIDDEN'',
            detail_Message = ''URL not found or access denied'', detail_Details = []\<rparr>)
   \<and> fst (handleError (AppErr (NewNotFoundError ''URL not found'' None))) = 404"
  by (simp add: example_world_def example_url_def DeleteURL_def Handler_DeleteURL_def
      urlRepository_CheckOwnership_def handleError_def GetAppError_def ToErrorResponse_def
      NewForbiddenError_def NewNotFoundError_def NewAppError_def ErrCodeNotFound_def
      ErrCodeForbidden_def StatusForbidden_def StatusNotFound_def)

section \<open>Updating a link\<close>

lemma UpdateURLRequest_Validate_fields:
  "upd_IsActive (fst (UpdateURLRequest_Validate url_Parse now req)) = upd_IsActive req"
  "upd_ExpiresAt (fst (UpdateURLRequest_Validate url_Parse now req)) = upd_ExpiresAt req"
  by (simp_all add: UpdateURLRequest_Validate_def Let_def)

lemma UpdateURL_eval:
  assumes "shortCode \<noteq> []"
    and "UpdateURLRequest_Validate url_Parse now req = (req', None)"
    and "db_fault w = None" and "urls w shortCode = Some row" and "UserID row = userID"
  defines "row' \<equiv> row\<lparr>OriginalURL := (if upd_OriginalURL req' \<noteq> [] then upd_OriginalURL req'
                                          else OriginalURL row),
                        IsActive := (case upd_IsActive req' of None \<Rightarrow> IsActive row | Some a \<Rightarrow> a),
                        ExpiresAt := (case upd_ExpiresAt req' of None \<Rightarrow> ExpiresAt row
                                      | Some t \<Rightarrow> Some t),
                        UpdatedAt := now\<rparr>"
    and "statusChanged \<equiv>
           (case upd_IsActive req' of None \<Rightarrow> False | Some a \<Rightarrow> IsActive row \<noteq> a)
           \<or> (case upd_ExpiresAt req' of None \<Rightarrow> False | Some t \<Rightarrow> ExpiresAt row \<noteq> Some t)"
  defines "w1 \<equiv> w\<lparr>urls := (urls w)(shortCode \<mapsto> row')\<rparr>"
  shows "UpdateURL url_Parse w now shortCode req userID =
           (Inr (row'\<lparr>ShortCode := shortCode\<rparr>),
            if statusChanged \<or> \<not> IsActive row' \<or> IsExpired now row'
            then snd (cacheRepository_DeleteURL w1 shortCode)
            else snd (cacheRepository_SetURL w1 now shortCode (OriginalURL row') (24 * Hour)))"
proof -
  have own: "urlRepository_CheckOwnership w shortCode userID = Inr True"
    using assms(3-5) by (simp add: urlRepository_CheckOwnership_def)
  have get: "urlRepository_GetByShortCode w shortCode = Inr (row\<lparr>ShortCode := shortCode\<rparr>)"
    using assms(3,4) by (simp add: urlRepository_GetByShortCode_def)
  have upd: "urlRepository_Update w now u =
      (Inr (u\<lparr>ID := ID row, CreatedAt := CreatedAt row, UpdatedAt := now\<rparr>),
       w\<lparr>urls := (urls w)(shortCode \<mapsto> row\<lparr>OriginalURL := OriginalURL u, IsActive := IsActive u,
                              ExpiresAt := ExpiresAt u, UpdatedAt := now\<rparr>)\<rparr>)"
    if "ShortCode u = shortCode" for u
    using assms(3,4) that by (simp add: urlRepository_Update_def)
  show ?thesis
    using assms(1,2) own get
    by (cases "upd_IsActive req'"; cases "upd_ExpiresAt req'")
       (auto simp: UpdateURL_def Let_def upd row'_def statusChanged_def w1_def IsExpired_def)
qed

lemma UpdateURL_cases:
  obtains (fail) e where "UpdateURL url_Parse w now shortCode req userID = (Inl e, w)"
  | (ok) req' row where "shortCode \<noteq> []"
      and "UpdateURLRequest_Validate url_Parse now req = (req', None)"
      and "db_fault w = None" and "urls w shortCode = Some row" and "UserID row = userID"
proof (cases "shortCode = []")
  case True
  then show ?thesis by (intro fail) (simp add: UpdateURL_def)
next
  case False
  obtain req' err where val: "UpdateURLRequest_Validate url_Parse now req = (req', err)"
    by (cases "UpdateURLRequest_Validate url_Parse now req")
  show ?thesis
  proof (cases err)
    case (Some e)
    with False val show ?thesis by (intro fail) (simp add: UpdateURL_def)
  next
    case None
    note valid = this
    show ?thesis
    proof (cases "db_fault w")
      case (Some e)
      with False val valid show ?thesis
        by (intro fail) (simp add: UpdateURL_def urlRepository_CheckOwnership_def)
    next
      case None
      note db = this
      show ?thesis
      proof (cases "urls w shortCode")
        case None
        with False val valid db show ?thesis
          by (intro fail) (simp add: UpdateURL_def urlRepository_CheckOwnership_def)
      next
        case (Some row)
        show ?thesis
        proof (cases "UserID row = userID")
          case True
          with False val valid db Some show ?thesis by (intro ok) simp_all
        next
          case wrong: False
          with False val valid db Some show ?thesis
            by (intro fail) (simp add: UpdateURL_def urlRepository_CheckOwnership_def)
        qed
      qed
    qed
  qed
qed

lemma OptionalTime_UnmarshalJSON_nil:
  "OptionalTime_UnmarshalJSON time_Parse ''null'' = Inr None"
  "OptionalTime_UnmarshalJSON time_Parse [CHR 0x22, CHR 0x22] = Inr None"
  by (simp_all add: OptionalTime_UnmarshalJSON_def strings_Trim_def)

lemma example_Validate_deactivate:
  "UpdateURLRequest_Validate example_Parse now example_deactivate = (example_deactivate, None)"
  by (simp add: UpdateURLRequest_Validate_def example_deactivate_def)

lemma example_UpdateURL:
  "UpdateURL example_Parse example_world now ''aaaaaaaa'' example_deactivate 1 =
     (Inr (example_url\<lparr>IsActive := False, UpdatedAt := now\<rparr>),
      example_world\<lparr>urls := [''aaaaaaaa'' \<mapsto> example_url\<lparr>IsActive := False, UpdatedAt := now\<rparr>],
                      redis := Map.empty\<rparr>)"
proof -
  have "db_fault example_world = None" and "urls example_world ''aaaaaaaa'' = Some example_url"
    and "UserID example_url = 1"
    by (simp_all add: example_world_def example_url_def)
  from UpdateURL_eval [OF _ example_Validate_deactivate this, of now] show ?thesis
    by (simp add: example_deactivate_def cacheRepository_DeleteURL_def)
       (simp add: example_world_def example_url_def)
qed

text \<open>
  Claim C10.  An update whose request has no \<open>expiresAt\<close> (the field is absent from the
  JSON body, or \<open>null\<close>, or the empty string: all three are \<open>nil\<close>) leaves the stored
  \<open>expiresAt\<close> of every link as it was.  And whatever the request, a link that had an
  expiry before the call has one after it: no update clears an expiry.
\<close>

theorem UpdateURL_expiry_kept:
  assumes "UpdateURL url_Parse w now shortCode req userID = (res, w')"
  shows "(upd_ExpiresAt req = None \<longrightarrow>
            (\<forall>c. map_option ExpiresAt (urls w' c) = map_option ExpiresAt (urls w c)))
         \<and> (\<forall>c row t. urls w c = Some row \<and> ExpiresAt row = Some t \<longrightarrow>
               (\<exists>row' t'. urls w' c = Some row' \<and> ExpiresAt row' = Some t'))"
proof (cases rule: UpdateURL_cases [of url_Parse w now shortCode req userID])
  case (fail e)
  with assms(1) show ?thesis by simp
next
  case (ok req' row)
  have ex: "upd_ExpiresAt req' = upd_ExpiresAt req"
    using UpdateURLRequest_Validate_fields(2) [of url_Parse now req] ok(2) by simp
  define row' where "row' = row\<lparr>OriginalURL := (if upd_OriginalURL req' \<noteq> [] then upd_OriginalURL req'
                                          else OriginalURL row),
                        IsActive := (case upd_IsActive req' of None \<Rightarrow> IsActive row | Some a \<Rightarrow> a),
                        ExpiresAt := (case upd_ExpiresAt req' of None \<Rightarrow> ExpiresAt row
                                      | Some t \<Rightarrow> Some t),
                        UpdatedAt := now\<rparr>"
  from UpdateURL_eval [OF ok] assms(1)
  have "urls w' = (urls w)(shortCode \<mapsto> row')"
    by (auto simp: row'_def cacheRepository_DeleteURL_def cacheRepository_SetURL_def Let_def
        split: option.splits if_splits)
  moreover have "ExpiresAt row' = (case upd_ExpiresAt req of None \<Rightarrow> ExpiresAt row | Some t \<Rightarrow> Some t)"
    by (simp add: row'_def ex)
  ultimately show ?thesis
    using ok(4) by (auto split: option.splits)
qed

text \<open>
  For claim C10: the owner deactivates the example link and its expiry stays 500.
\<close>

theorem UpdateURL_expiry_kept_witness:
  "map_option ExpiresAt (urls example_world ''aaaaaaaa'') = Some (Some 500)
   \<and> map_option ExpiresAt
        (urls (snd (UpdateURL example_Parse example_world 200 ''aaaaaaaa'' example_deactivate 1))
           ''aaaaaaaa'') = Some (Some 500)"
proof -
  have "UpdateURL example_Parse example_world 200 ''aaaaaaaa'' example_deactivate 1
     = (fst (UpdateURL example_Parse example_world 200 ''aaaaaaaa'' example_deactivate 1),
        snd (UpdateURL example_Parse example_world 200 ''aaaaaaaa'' example_deactivate 1))"
    by simp
  from UpdateURL_expiry_kept [OF this] show ?thesis
    by (simp add: example_deactivate_def) (simp add: example_world_def example_url_def)
qed

text \<open>
  Claim C3, as the code has it.  After a successful update that sets \<open>active\<close> to false,
  the cache entry of the code is gone (once the Redis command succeeds), and \<open>GetURL\<close> on
  the state the update leaves, whatever the cache holds and at whatever time, returns the
  expired error when the link's expiry is then in the past and the inactive error
  otherwise; it never returns the link.
\<close>

theorem UpdateURL_deactivate_then_GetURL:
  assumes "UpdateURL url_Parse w now shortCode req userID = (Inr updated, w')"
    and "upd_IsActive req = Some False"
  shows "(redis_fault w = None \<longrightarrow> redis w' (''url:'' @ shortCode) = None)
         \<and> fst (GetURL (w'\<lparr>redis := cache\<rparr>) now' shortCode)
             = Inl (if IsExpired now' updated then NewExpiredError ''URL has expired'' None
                    else NewInactiveError ''URL is not active'' None)"
proof (cases rule: UpdateURL_cases [of url_Parse w now shortCode req userID])
  case (fail e)
  with assms(1) show ?thesis by simp
next
  case (ok req' row)
  have act: "upd_IsActive req' = Some False"
    using UpdateURLRequest_Validate_fields(1) [of url_Parse now req] ok(2) assms(2) by simp
  note ev = UpdateURL_eval [OF ok]
  from ev assms(1) act have upd: "IsActive updated = False"
    and w': "w' = snd (cacheRepository_DeleteURL
                  (w\<lparr>urls := (urls w)(shortCode \<mapsto> updated\<lparr>ShortCode := ShortCode row\<rparr>)\<rparr>) shortCode)"
    by auto
  from w' have evict: "redis_fault w = None \<longrightarrow> redis w' (''url:'' @ shortCode) = None"
    by (simp add: cacheRepository_DeleteURL_def)
  from w' ok(3) have row': "urls w' shortCode = Some (updated\<lparr>ShortCode := ShortCode row\<rparr>)"
    and db: "db_fault w' = None"
    by (simp_all add: cacheRepository_DeleteURL_def Let_def split: option.splits)
  have "fst (GetURL (w'\<lparr>redis := cache\<rparr>) now' shortCode)
             = Inl (if IsExpired now' updated then NewExpiredError ''URL has expired'' None
                    else NewInactiveError ''URL is not active'' None)"
    using ok(1) row' db upd
    by (simp add: GetURL_def urlRepository_GetByShortCode_def IsExpired_def)
  with evict show ?thesis by simp
qed

text \<open>
  For claim C3: the example link, not yet expired, is deactivated; its cache entry is gone
  and looking it up gives the inactive error.
\<close>

theorem UpdateURL_deactivate_then_GetURL_witness:
  "redis example_world ''url:aaaaaaaa'' \<noteq> None
   \<and> redis (snd (UpdateURL example_Parse example_world 200 ''aaaaaaaa'' example_deactivate 1))
         ''url:aaaaaaaa'' = None
   \<and> fst (GetURL (snd (UpdateURL example_Parse example_world 200 ''aaaaaaaa'' example_deactivate 1))
          300 ''aaaaaaaa'')
       = Inl (NewInactiveError ''URL is not active'' None)"
proof -
  let ?w' = "snd (UpdateURL example_Parse example_world 200 ''aaaaaaaa'' example_deactivate 1)"
  have upd: "UpdateURL example_Parse example_world 200 ''aaaaaaaa'' example_deactivate 1
          = (Inr (example_url\<lparr>IsActive := False, UpdatedAt := 200\<rparr>), ?w')"
    by (simp add: example_UpdateURL)
  have act: "upd_IsActive example_deactivate = Some False"
    by (simp add: example_deactivate_def)
  have same: "?w'\<lparr>redis := redis ?w'\<rparr> = ?w'"
    by simp
  from UpdateURL_deactivate_then_GetURL [OF upd act, of "redis ?w'" 300] show ?thesis
    unfolding same by (simp add: example_world_def example_url_def IsExpired_def)
qed

text \<open>
  Claim C3, as stated, fails: the example link expired at 500; deactivating it at 600
  succeeds, and looking it up then gives the expired error, not the inactive error.
\<close>

theorem UpdateURL_deactivate_then_GetURL_counterexample:
  "fst (UpdateURL example_Parse example_world 600 ''aaaaaaaa'' example_deactivate 1)
     = Inr (example_url\<lparr>IsActive := False, UpdatedAt := 600\<rparr>)
   \<and> fst (GetURL (snd (UpdateURL example_Parse example_world 600 ''aaaaaaaa'' example_deactivate 1))
          600 ''aaaaaaaa'')
       = Inl (NewExpiredError ''URL has expired'' None)
   \<and> NewExpiredError ''URL has expired'' None \<noteq> NewInactiveError ''URL is not active'' None"
  by (simp add: example_UpdateURL)
     (simp add: GetURL_def urlRepository_GetByShortCode_def IsExpired_def example_world_def
        example_url_def NewExpiredError_def NewInactiveError_def NewAppError_def)

section \<open>Short codes\<close>

lemma generateShortCode_loop_snd:
  "snd (generateShortCode_loop n w) = w\<lparr>rand_pos := rand_pos w + n\<rparr>"
  by (induction n arbitrary: w) (simp_all add: randomInt_def Let_def case_prod_beta)

lemma generateShortCode_loop_fst:
  "fst (generateShortCode_loop n w) =
     map (\<lambda>i. charset ! (unat (rand_src w (rand_pos w + i)) mod length charset)) [0..<n]"
proof (induction n arbitrary: w)
  case 0
  then show ?case by simp
next
  case (Suc n)
  have "[0..<Suc n] = 0 # map Suc [0..<n]"
    by (simp add: upt_conv_Cons map_Suc_upt del: upt_Suc)
  then show ?case
    by (simp add: Suc randomInt_def Let_def case_prod_beta comp_def del: upt_Suc)
qed

lemma generateShortCode_snd:
  "snd (generateShortCode w) = w\<lparr>rand_pos := rand_pos w + 8\<rparr>"
  by (simp add: generateShortCode_def generateShortCode_loop_snd)

lemma generateShortCode_fst:
  "fst (generateShortCode w) =
     map (\<lambda>i. charset ! (unat (rand_src w (rand_pos w + i)) mod length charset)) [0..<8]"
  by (simp add: generateShortCode_def generateShortCode_loop_fst)

lemma generateShortCode_pair:
  "generateShortCode w = (fst (generateShortCode w), w\<lparr>rand_pos := rand_pos w + 8\<rparr>)"
  using generateShortCode_snd [of w] by (cases "generateShortCode w") simp

lemma generateUniqueShortCode_first_free:
  assumes "db_fault w = None" and "urls w (fst (generateShortCode w)) = None"
  shows "generateUniqueShortCode w =
           (Inr (fst (generateShortCode w)), w\<lparr>rand_pos := rand_pos w + 8\<rparr>)"
  using assms
  by (simp add: generateUniqueShortCode_def generateUniqueShortCode_loop.simps [of 10 0 w])
     (subst generateShortCode_pair, simp add: urlRepository_ExistsByShortCode_def)

lemma example_codes:
  "fst (generateShortCode (example_world\<lparr>rand_pos := p\<rparr>)) = ''aaaaaaaa''"
  "fst (generateShortCode example_world_b) = ''bbbbbbbb''"
  by (simp_all add: generateShortCode_fst example_world_def example_world_b_def charset_def
      upt_rec [of _ 8] upt_rec [of _ 7] upt_rec [of _ 6] upt_rec [of _ 5] upt_rec [of _ 4]
      upt_rec [of _ 3] upt_rec [of _ 2] upt_rec [of _ 1] upt_rec [of _ 0])

lemma length_charset: "length charset = 62"
  by (simp add: charset_def)

lemma distinct_charset: "distinct charset"
  by (simp add: charset_def)

lemma charset_nth_eq: "i < 62 \<Longrightarrow> j < 62 \<Longrightarrow> charset ! i = charset ! j \<longleftrightarrow> i = j"
  using distinct_charset by (simp add: nth_eq_iff_index_eq length_charset)

lemma charset_0: "charset ! 0 = CHR ''a''" and charset_8: "charset ! 8 = CHR ''i''"
  by (simp_all add: charset_def)

lemma mod62_0: "n < 256 \<Longrightarrow> n mod 62 = 0 \<longleftrightarrow> n \<in> {0, 62, 124, 186, 248::nat}"
  by auto

lemma mod62_8: "n < 256 \<Longrightarrow> n mod 62 = 8 \<longleftrightarrow> n \<in> {8, 70, 132, 194::nat}"
proof
  assume lt: "n < 256" and m: "n mod 62 = 8"
  have n: "n = 62 * (n div 62) + 8"
    using m div_mult_mod_eq [of n 62] by simp
  with lt have "n div 62 < 4" by simp
  then have "n div 62 \<in> {0, 1, 2, 3}" by auto
  with n show "n \<in> {8, 70, 132, 194}" by auto
next
  assume "n \<in> {8, 70, 132, 194}"
  then show "n mod 62 = 8" by auto
qed

lemma bytes_giving_a:
  "{b :: byte. charset ! (unat b mod length charset) = CHR ''a''} = {0, 62, 124, 186, 248}"
proof -
  have "charset ! (unat b mod 62) = CHR ''a'' \<longleftrightarrow> unat b mod 62 = 0" for b :: byte
    using charset_nth_eq [of "unat b mod 62" 0] by (simp add: charset_0)
  moreover have "unat b mod 62 = 0 \<longleftrightarrow> unat b \<in> {0, 62, 124, 186, 248}" for b :: byte
  proof -
    have "unat b < 256" using unsigned_less [of b] by simp
    then show ?thesis by (rule mod62_0)
  qed
  moreover have "unat b \<in> {0, 62, 124, 186, 248} \<longleftrightarrow> b \<in> {0, 62, 124, 186, 248}" for b :: byte
    by (simp add: word_unat_eq_iff)
  ultimately show ?thesis
    by (simp add: length_charset set_eq_iff)
qed

lemma bytes_giving_i:
  "{b :: byte. charset ! (unat b mod length charset) = CHR ''i''} = {8, 70, 132, 194}"
proof -
  have "charset ! (unat b mod 62) = CHR ''i'' \<longleftrightarrow> unat b mod 62 = 8" for b :: byte
    using charset_nth_eq [of "unat b mod 62" 8] by (simp add: charset_8)
  moreover have "unat b mod 62 = 8 \<longleftrightarrow> unat b \<in> {8, 70, 132, 194}" for b :: byte
  proof -
    have "unat b < 256" using unsigned_less [of b] by simp
    then show ?thesis by (rule mod62_8)
  qed
  moreover have "unat b \<in> {8, 70, 132, 194} \<longleftrightarrow> b \<in> {8, 70, 132, 194}" for b :: byte
    by (simp add: word_unat_eq_iff)
  ultimately show ?thesis
    by (simp add: length_charset set_eq_iff)
qed

lemma generateShortCode_alphabet:
  "length (fst (generateShortCode w)) = 8" "set (fst (generateShortCode w)) \<subseteq> set charset"
proof -
  show "length (fst (generateShortCode w)) = 8"
    by (simp add: generateShortCode_fst del: upt_Suc)
  have "charset ! (k mod length charset) \<in> set charset" for k
    by (rule nth_mem) (simp add: length_charset)
  then show "set (fst (generateShortCode w)) \<subseteq> set charset"
    by (auto simp: generateShortCode_fst simp del: upt_Suc)
qed

lemma generateShortCode_nth:
  "i < 8 \<Longrightarrow> fst (generateShortCode w) ! i
     = charset ! (unat (rand_src w (rand_pos w + i)) mod length charset)"
  by (simp add: generateShortCode_fst del: upt_Suc)

text \<open>
  Claim C7.  The generated code has 8 characters, all from the character set, and its
  character at position \<open>i\<close> is selected by the \<open>i\<close>-th byte read, modulo 62.  But 256
  is not a multiple of 62: five byte values select \<open>a\<close> and only four select \<open>i\<close>, so
  uniformly random bytes do not give uniformly distributed characters.
\<close>

theorem generateShortCode_modulo_bias:
  "length (fst (generateShortCode w)) = 8
   \<and> set (fst (generateShortCode w)) \<subseteq> set charset
   \<and> (\<forall>i < 8. fst (generateShortCode w) ! i
          = charset ! (unat (rand_src w (rand_pos w + i)) mod length charset))
   \<and> card {b :: byte. charset ! (unat b mod length charset) = CHR ''a''} = 5
   \<and> card {b :: byte. charset ! (unat b mod length charset) = CHR ''i''} = 4"
proof (intro conjI)
  show "length (fst (generateShortCode w)) = 8"
    by (rule generateShortCode_alphabet)
  show "set (fst (generateShortCode w)) \<subseteq> set charset"
    by (rule generateShortCode_alphabet)
  show "\<forall>i < 8. fst (generateShortCode w) ! i
          = charset ! (unat (rand_src w (rand_pos w + i)) mod length charset)"
    by (simp add: generateShortCode_nth)
  show "card {b :: byte. charset ! (unat b mod length charset) = CHR ''a''} = 5"
    by (simp add: bytes_giving_a)
  show "card {b :: byte. charset ! (unat b mod length charset) = CHR ''i''} = 4"
    by (simp add: bytes_giving_i)
qed

text \<open>
  For claim C7: the code generated from bytes 1.
\<close>

theorem generateShortCode_modulo_bias_witness:
  "length (fst (generateShortCode example_world_b)) = 8
   \<and> fst (generateShortCode example_world_b) ! 3 = CHR ''b''"
  using generateShortCode_modulo_bias [of example_world_b]
  by (simp add: example_world_b_def example_world_def charset_def)

section \<open>Creating a link\<close>

lemma Validate_CustomCode:
  "CustomCode (fst (CreateURLRequest_Validate url_Parse now req)) = CustomCode req"
  by (simp add: CreateURLRequest_Validate_def Let_def)

lemma example_Validate_create:
  "CreateURLRequest_Validate example_Parse 200 (example_create [])
     = (\<lparr>req_URL = ''https://example.com'', CustomCode = [], req_ExpiresAt = None\<rparr>, None)"
  "CreateURLRequest_Validate example_Parse 200 (example_create ''promo'')
     = (\<lparr>req_URL = ''https://example.com'', CustomCode = ''promo'', req_ExpiresAt = None\<rparr>, None)"
  by (simp_all add: CreateURLRequest_Validate_def example_create_def TrimSpace_example
      strings_HasPrefix_def example_Parse_def custom_code_char_def less_eq_char_def)

text \<open>
  Claim C6.  When the owner's link count is at or above the link limit, \<open>CreateURL\<close>
  fails with a validation error and leaves the state as it was: no short code has been
  generated (the random source is where it was), nothing was inserted, and no sequence
  number was drawn.  The error is the one for the exceeded limit unless the request itself
  is invalid, which is found first and is a validation error as well.
\<close>

theorem CreateURL_quota:
  assumes "db_fault w = None" and "users w userID = Some user"
    and "LinkLimit user \<le> LinkCount user"
  shows "CreateURL url_Parse concurrent s w now req userID clientIP userAgent =
           (Inl (case snd (CreateURLRequest_Validate url_Parse now req) of
                   Some err \<Rightarrow> NewValidationError ''Invalid request'' (Some err)
                 | None \<Rightarrow>
                     NewValidationError (''Link limit exceeded. You can create maximum ''
                       @ fmt_d (LinkLimit user) @ '' links'') None), w)
         \<and> (\<forall>e. fst (CreateURL url_Parse concurrent s w now req userID clientIP userAgent) = Inl e
                \<longrightarrow> Code e = ErrCodeValidation \<and> StatusCode e = StatusBadRequest)"
proof -
  obtain req' err where val: "CreateURLRequest_Validate url_Parse now req = (req', err)"
    by (cases "CreateURLRequest_Validate url_Parse now req")
  have user: "userRepository_GetByID w userID = Inr user"
    using assms by (simp add: userRepository_GetByID_def)
  have quota: "\<not> CanCreateLink user"
    using assms(3) by (simp add: CanCreateLink_def)
  show ?thesis
  proof (cases err)
    case None
    with val user quota show ?thesis
      by (simp add: CreateURL_def NewValidationError_def NewAppError_def)
  next
    case (Some e)
    with val show ?thesis
      by (simp add: CreateURL_def NewValidationError_def NewAppError_def)
  qed
qed

theorem CreateURL_quota_witness:
  "CreateURL example_Parse id example_service example_world 200 (example_create []) 2
       ''10.0.0.2'' ''curl/8.0''
     = (Inl (NewValidationError ''Link limit exceeded. You can create maximum 0 links'' None),
        example_world)"
proof -
  have "db_fault example_world = None"
    and "users example_world 2 = Some \<lparr>user_ID = 2, LinkCount = 0, LinkLimit = 0\<rparr>"
    and "LinkLimit \<lparr>user_ID = 2, LinkCount = 0, LinkLimit = 0\<rparr>
           \<le> LinkCount \<lparr>user_ID = 2, LinkCount = 0, LinkLimit = 0\<rparr>"
    by (simp_all add: example_world_def)
  from CreateURL_quota [OF this, of example_Parse id example_service 200 "example_create []"
      "''10.0.0.2''" "''curl/8.0''"]
  show ?thesis
    by (simp add: example_Validate_create fmt_d_def fmt_d_nat.simps)
qed

lemma generateUniqueShortCode_loop_exhausted:
  assumes "db_fault w = None"
    and "\<forall>j < maxAttempts - i.
           urls w (fst (generateShortCode (w\<lparr>rand_pos := rand_pos w + 8 * j\<rparr>))) \<noteq> None"
  shows "generateUniqueShortCode_loop maxAttempts i w =
           (Inl (''failed to generate unique short code after '' @ fmt_d (int maxAttempts)
                 @ '' attempts''),
            w\<lparr>rand_pos := rand_pos w + 8 * (maxAttempts - i)\<rparr>)"
  using assms
proof (induction "maxAttempts - i" arbitrary: i w)
  case 0
  then show ?case
    by (simp add: generateUniqueShortCode_loop.simps [of maxAttempts i w])
next
  case (Suc k)
  let ?w1 = "w\<lparr>rand_pos := rand_pos w + 8\<rparr>"
  from Suc.hyps(2) have lt: "i < maxAttempts" and k: "k = maxAttempts - Suc i"
    by simp_all
  from Suc.prems(2) lt have "urls w (fst (generateShortCode (w\<lparr>rand_pos := rand_pos w + 8 * 0\<rparr>))) \<noteq> None"
    by (metis zero_less_diff)
  then have taken: "urls w (fst (generateShortCode w)) \<noteq> None"
    by simp
  have "urls ?w1 (fst (generateShortCode (?w1\<lparr>rand_pos := rand_pos ?w1 + 8 * j\<rparr>))) \<noteq> None"
    if "j < maxAttempts - Suc i" for j
  proof -
    from that have "Suc j < maxAttempts - i" by simp
    with Suc.prems(2)
    have "urls w (fst (generateShortCode (w\<lparr>rand_pos := rand_pos w + 8 * Suc j\<rparr>))) \<noteq> None"
      by blast
    then show ?thesis by (simp add: add.assoc)
  qed
  with Suc.hyps(1) [OF k, of ?w1] Suc.prems(1)
  have rest: "generateUniqueShortCode_loop maxAttempts (Suc i) ?w1 =
           (Inl (''failed to generate unique short code after '' @ fmt_d (int maxAttempts)
                 @ '' attempts''),
            ?w1\<lparr>rand_pos := rand_pos ?w1 + 8 * (maxAttempts - Suc i)\<rparr>)"
    by simp
  have "8 + 8 * (maxAttempts - Suc i) = 8 * (maxAttempts - i)"
    using lt by simp
  with rest lt taken Suc.prems(1) show ?case
    by (subst generateUniqueShortCode_loop.simps, subst generateShortCode_pair)
       (simp add: urlRepository_ExistsByShortCode_def add.assoc)
qed

lemma fmt_d_10: "fmt_d (int 10) = ''10''"
  by (simp add: fmt_d_def fmt_d_nat.simps)

text \<open>
  Claim C4.  A valid request without a custom code, by an owner below the limit: when each
  of the ten candidates that are generated is already in the table, \<open>CreateURL\<close> fails
  with the internal error that wraps \<open>failed to generate unique short code after 10
  attempts\<close>.  The state it leaves is the state before the call with the random source
  advanced by ten codes of eight bytes: ten candidates were generated, and nothing was
  inserted.
\<close>

theorem CreateURL_generation_exhausted:
  assumes "snd (CreateURLRequest_Validate url_Parse now req) = None"
    and "CustomCode req = []"
    and "db_fault w = None" and "users w userID = Some user" and "CanCreateLink user"
    and "\<forall>i < 10. urls w (fst (generateShortCode (w\<lparr>rand_pos := rand_pos w + 8 * i\<rparr>))) \<noteq> None"
  shows "CreateURL url_Parse concurrent s w now req userID clientIP userAgent =
           (Inl (NewInternalError ''Failed to generate short code''
                   (Some ''failed to generate unique short code after 10 attempts'')),
            w\<lparr>rand_pos := rand_pos w + 10 * 8\<rparr>)"
proof -
  obtain req' where val: "CreateURLRequest_Validate url_Parse now req = (req', None)"
    using assms(1) by (cases "CreateURLRequest_Validate url_Parse now req") simp
  have code: "CustomCode req' = []"
    using Validate_CustomCode [of url_Parse now req] val assms(2) by simp
  have user: "userRepository_GetByID w userID = Inr user"
    using assms(3,4) by (simp add: userRepository_GetByID_def)
  have gen: "generateUniqueShortCode w =
      (Inl ''failed to generate unique short code after 10 attempts'',
       w\<lparr>rand_pos := rand_pos w + 80\<rparr>)"
    using generateUniqueShortCode_loop_exhausted [of w 10 0] assms(3,6) fmt_d_10
    by (simp add: generateUniqueShortCode_def)
  show ?thesis
    using val code user assms(5) gen by (simp add: CreateURL_def)
qed

text \<open>
  For claim C4: in the example state every candidate is \<open>aaaaaaaa\<close>, which is taken.
\<close>

theorem CreateURL_generation_exhausted_witness:
  "CreateURL example_Parse id example_service example_world 200 (example_create []) 1
       ''10.0.0.2'' ''curl/8.0''
     = (Inl (NewInternalError ''Failed to generate short code''
               (Some ''failed to generate unique short code after 10 attempts'')),
        example_world\<lparr>rand_pos := 80\<rparr>)"
proof -
  have "snd (CreateURLRequest_Validate example_Parse 200 (example_create [])) = None"
    and "CustomCode (example_create []) = []"
    and "db_fault example_world = None"
    and "users example_world 1 = Some \<lparr>user_ID = 1, LinkCount = 1, LinkLimit = 50\<rparr>"
    and "CanCreateLink \<lparr>user_ID = 1, LinkCount = 1, LinkLimit = 50\<rparr>"
    and "\<forall>i < 10. urls example_world
           (fst (generateShortCode (example_world\<lparr>rand_pos := rand_pos example_world + 8 * i\<rparr>)))
           \<noteq> None"
    by (simp_all add: example_Validate_create example_codes)
       (simp_all add: example_create_def example_world_def CanCreateLink_def)
  from CreateURL_generation_exhausted [OF this] show ?thesis
    by (simp add: example_world_def)
qed

lemma urlRepository_Create_conflict:
  assumes "db_fault w = None" and "urls w (ShortCode url) \<noteq> None"
  shows "urlRepository_Create w url =
           (Inl (''failed to create URL: '' @ pq_unique_violation),
            w\<lparr>urls_id_seq := urls_id_seq w + 1\<rparr>)"
  using assms by (simp add: urlRepository_Create_def Let_def)

lemma CreateURL_conflict_eval:
  assumes "CreateURLRequest_Validate url_Parse now req = (req', None)"
    and "db_fault w = None" and "users w userID = Some user" and "CanCreateLink user"
    and "CustomCode req' \<noteq> [] \<and> urls w (CustomCode req') = None
           \<and> shortCode = CustomCode req' \<and> w1 = w
         \<or> CustomCode req' = [] \<and> generateUniqueShortCode w = (Inr shortCode, w1)"
    and "db_fault (concurrent w1) = None" and "urls (concurrent w1) shortCode \<noteq> None"
  shows "CreateURL url_Parse concurrent s w now req userID clientIP userAgent =
           (Inl (NewDatabaseError ''Failed to create URL''
                   (Some (''failed to create URL: '' @ pq_unique_violation))),
            (concurrent w1)\<lparr>urls_id_seq := urls_id_seq (concurrent w1) + 1\<rparr>)"
proof -
  have user: "userRepository_GetByID w userID = Inr user"
    using assms(2,3) by (simp add: userRepository_GetByID_def)
  from assms(5) show ?thesis
  proof
    assume custom: "CustomCode req' \<noteq> [] \<and> urls w (CustomCode req') = None
           \<and> shortCode = CustomCode req' \<and> w1 = w"
    then have free: "urlRepository_ExistsByShortCode w (CustomCode req') = Inr False"
      using assms(2) by (simp add: urlRepository_ExistsByShortCode_def)
    from custom assms(6,7) have "db_fault (concurrent w) = None"
      and "urls (concurrent w) (CustomCode req') \<noteq> None"
      by simp_all
    then have "urlRepository_Create (concurrent w) url =
           (Inl (''failed to create URL: '' @ pq_unique_violation),
            (concurrent w)\<lparr>urls_id_seq := urls_id_seq (concurrent w) + 1\<rparr>)"
      if "ShortCode url = CustomCode req'" for url
      using that by (simp add: urlRepository_Create_conflict)
    with custom free assms(1,4) user show ?thesis
      by (simp add: CreateURL_def del: append.simps)
  next
    assume gen: "CustomCode req' = [] \<and> generateUniqueShortCode w = (Inr shortCode, w1)"
    from assms(6,7) have "urlRepository_Create (concurrent w1) url =
           (Inl (''failed to create URL: '' @ pq_unique_violation),
            (concurrent w1)\<lparr>urls_id_seq := urls_id_seq (concurrent w1) + 1\<rparr>)"
      if "ShortCode url = shortCode" for url
      using that by (simp add: urlRepository_Create_conflict)
    with gen assms(1,4) user show ?thesis
      by (simp add: CreateURL_def del: append.simps)
  qed
qed

lemma example_race_state:
  "db_fault (example_race shortCode example_world) = None"
  "urls (example_race shortCode example_world) shortCode \<noteq> None"
  "db_fault (example_race shortCode example_world_b) = None"
  "urls (example_race shortCode example_world_b) shortCode \<noteq> None"
  by (simp_all add: example_race_def urlRepository_Create_def example_world_def
      example_world_b_def example_url_def Let_def)

lemma example_user:
  "db_fault example_world = None"
  "users example_world 1 = Some \<lparr>user_ID = 1, LinkCount = 1, LinkLimit = 50\<rparr>"
  "db_fault example_world_b = None"
  "users example_world_b 1 = Some \<lparr>user_ID = 1, LinkCount = 1, LinkLimit = 50\<rparr>"
  "CanCreateLink \<lparr>user_ID = 1, LinkCount = 1, LinkLimit = 50\<rparr>"
  by (simp_all add: example_world_def example_world_b_def CanCreateLink_def)

text \<open>
  Claim C5, as the code has it.  When the short code (custom, or generated) was free at
  the existence check and is in the table when the insert is made, \<open>CreateURL\<close> fails
  with the database error that wraps the driver's unique-violation error, for a custom
  code and for a generated code alike.  It generates no further code, and the table is as
  the other requests left it.
\<close>

theorem CreateURL_insert_conflict:
  assumes "CreateURLRequest_Validate url_Parse now req = (req', None)"
    and "db_fault w = None" and "users w userID = Some user" and "CanCreateLink user"
    and "CustomCode req' \<noteq> [] \<and> urls w (CustomCode req') = None
           \<and> shortCode = CustomCode req' \<and> w1 = w
         \<or> CustomCode req' = [] \<and> generateUniqueShortCode w = (Inr shortCode, w1)"
    and "db_fault (concurrent w1) = None" and "urls (concurrent w1) shortCode \<noteq> None"
  shows "CreateURL url_Parse concurrent s w now req userID clientIP userAgent =
           (Inl (NewDatabaseError ''Failed to create URL''
                   (Some (''failed to create URL: '' @ pq_unique_violation))),
            (concurrent w1)\<lparr>urls_id_seq := urls_id_seq (concurrent w1) + 1\<rparr>)
         \<and> Code (NewDatabaseError ''Failed to create URL''
                   (Some (''failed to create URL: '' @ pq_unique_violation))) = ErrCodeDatabase
         \<and> urls (snd (CreateURL url_Parse concurrent s w now req userID clientIP userAgent))
             = urls (concurrent w1)
         \<and> rand_pos (snd (CreateURL url_Parse concurrent s w now req userID clientIP userAgent))
             = rand_pos (concurrent w1)"
  using CreateURL_conflict_eval [where concurrent = concurrent and ?w1.0 = w1, OF assms]
  by (simp add: NewDatabaseError_def NewAppError_def)

text \<open>
  For claim C5: the custom code \<open>promo\<close> is taken by another request between the check
  and the insert.
\<close>

theorem CreateURL_insert_conflict_witness:
  "fst (CreateURL example_Parse (example_race ''promo'') example_service example_world 200
          (example_create ''promo'') 1 ''10.0.0.2'' ''curl/8.0'')
     = Inl (NewDatabaseError ''Failed to create URL''
              (Some (''failed to create URL: '' @ pq_unique_violation)))"
proof -
  have "CustomCode \<lparr>req_URL = ''https://example.com'', CustomCode = ''promo'',
                    req_ExpiresAt = None\<rparr> \<noteq> []
          \<and> urls example_world (CustomCode \<lparr>req_URL = ''https://example.com'',
                 CustomCode = ''promo'', req_ExpiresAt = None\<rparr>) = None
          \<and> ''promo'' = CustomCode \<lparr>req_URL = ''https://example.com'', CustomCode = ''promo'',
                 req_ExpiresAt = None\<rparr>
          \<and> example_world = example_world
        \<or> CustomCode \<lparr>req_URL = ''https://example.com'', CustomCode = ''promo'',
                    req_ExpiresAt = None\<rparr> = []
          \<and> generateUniqueShortCode example_world = (Inr ''promo'', example_world)"
    by (simp add: example_world_def)
  from CreateURL_insert_conflict [where concurrent = "example_race ''promo''"
      and ?w1.0 = example_world and shortCode = "''promo''",
      OF example_Validate_create(2) example_user(1,2,5) this example_race_state(1,2)]
  show ?thesis by simp
qed

text \<open>
  Claim C5, as stated, fails: with the custom code \<open>promo\<close> taken in between, the error
  is the database error and not the already-exists error; with the generated code
  \<open>bbbbbbbb\<close> taken in between, the call fails with the database error after reading
  eight random bytes, that is without generating a second code.
\<close>

theorem CreateURL_insert_conflict_counterexample:
  "fst (CreateURL example_Parse (example_race ''promo'') example_service example_world 200
          (example_create ''promo'') 1 ''10.0.0.2'' ''curl/8.0'')
     = Inl (NewDatabaseError ''Failed to create URL''
              (Some (''failed to create URL: '' @ pq_unique_violation)))
   \<and> Code (NewDatabaseError ''Failed to create URL''
              (Some (''failed to create URL: '' @ pq_unique_violation))) \<noteq> ErrCodeAlreadyExists
   \<and> fst (CreateURL example_Parse (example_race ''bbbbbbbb'') example_service example_world_b 200
          (example_create []) 1 ''10.0.0.2'' ''curl/8.0'')
     = Inl (NewDatabaseError ''Failed to create URL''
              (Some (''failed to create URL: '' @ pq_unique_violation)))
   \<and> rand_pos (snd (CreateURL example_Parse (example_race ''bbbbbbbb'') example_service
          example_world_b 200 (example_create []) 1 ''10.0.0.2'' ''curl/8.0'')) = 8"
proof -
  have free: "urls example_world_b (fst (generateShortCode example_world_b)) = None"
    by (simp add: example_codes) (simp add: example_world_b_def example_world_def)
  have gen: "generateUniqueShortCode example_world_b
               = (Inr ''bbbbbbbb'', example_world_b\<lparr>rand_pos := rand_pos example_world_b + 8\<rparr>)"
    using generateUniqueShortCode_first_free [OF example_user(3) free]
    by (simp add: example_codes)
  have same: "example_race c (w\<lparr>rand_pos := p\<rparr>) = (example_race c w)\<lparr>rand_pos := p\<rparr>" for c w p
    by (simp add: example_race_def urlRepository_Create_def Let_def split: option.splits)
  have "CreateURL example_Parse (example_race ''promo'') example_service example_world 200
          (example_create ''promo'') 1 ''10.0.0.2'' ''curl/8.0''
     = (Inl (NewDatabaseError ''Failed to create URL''
              (Some (''failed to create URL: '' @ pq_unique_violation))),
        (example_race ''promo'' example_world)
          \<lparr>urls_id_seq := urls_id_seq (example_race ''promo'' example_world) + 1\<rparr>)"
    by (rule CreateURL_conflict_eval [where concurrent = "example_race ''promo''"
          and ?w1.0 = example_world and shortCode = "''promo''",
          OF example_Validate_create(2) example_user(1,2,5) _ example_race_state(1,2)])
       (simp add: example_world_def)
  moreover have "CreateURL example_Parse (example_race ''bbbbbbbb'') example_service
          example_world_b 200 (example_create []) 1 ''10.0.0.2'' ''curl/8.0''
     = (Inl (NewDatabaseError ''Failed to create URL''
              (Some (''failed to create URL: '' @ pq_unique_violation))),
        (example_race ''bbbbbbbb'' (example_world_b\<lparr>rand_pos := rand_pos example_world_b + 8\<rparr>))
          \<lparr>urls_id_seq := urls_id_seq (example_race ''bbbbbbbb''
              (example_world_b\<lparr>rand_pos := rand_pos example_world_b + 8\<rparr>)) + 1\<rparr>)"
    by (rule CreateURL_conflict_eval [where concurrent = "example_race ''bbbbbbbb''"
          and ?w1.0 = "example_world_b\<lparr>rand_pos := rand_pos example_world_b + 8\<rparr>"
          and shortCode = "''bbbbbbbb''",
          OF example_Validate_create(1) example_user(3,4,5)])
       (simp_all add: gen same example_race_state)
  moreover have "rand_pos example_world_b = 0"
    by (simp add: example_world_b_def example_world_def)
  ultimately show ?thesis
    by (simp add: same NewDatabaseError_def NewAppError_def ErrCodeDatabase_def
        ErrCodeAlreadyExists_def)
qed

end
